theory Spec2Isabelle
  imports Main
begin

section \<open>Data model\<close>

text \<open>
  The resource descriptor of the inventory (interface \<open>AWSResource\<close>) and the
  relationship edge (interface \<open>ResourceRelationship\<close>). An optional property of the
  source is an \<open>option\<close>; JavaScript truthiness is written out where the source tests a
  property with \<open>if (x)\<close> or \<open>x || y\<close>. The \<open>details\<close> bag keeps the two properties
  discovery reads: \<open>clusterName\<close> and
  \<open>networkConfiguration.awsvpcConfiguration.securityGroups\<close>.
\<close>

datatype resource_type =
  Ecs | Aurora | AuroraInstance | Lambda | Ec2 | StepFunctions | ApiGateway | EventBridge | Alb | Nlb

record resource_details =
  clusterName :: "string option"
  networkSecurityGroups :: "string list option"

record resource =
  resId :: string
  resName :: string
  resType :: resource_type
  application :: string
  region :: string
  tags :: "(string \<times> string) list"
  securityGroups :: "string list option"
  clusterId :: "string option"
  details :: "resource_details option"

datatype relationship_type =
  ROUTES_TO | DEPENDS_ON | TRIGGERS | CONNECTS_TO | PART_OF | INSTANCE_OF

fun typeString :: "relationship_type \<Rightarrow> string" where
  "typeString ROUTES_TO = ''routes_to''"
| "typeString DEPENDS_ON = ''depends_on''"
| "typeString TRIGGERS = ''triggers''"
| "typeString CONNECTS_TO = ''connects_to''"
| "typeString PART_OF = ''part_of''"
| "typeString INSTANCE_OF = ''instance_of''"

datatype direction = Inbound | Outbound

record security_group_rule =
  ruleProtocol :: string
  fromPort :: "int option"
  toPort :: "int option"
  securityGroupId :: string
  ruleDirection :: direction

record security_groups_meta =
  sgSource :: "string list"
  sgTarget :: "string list"
  rules :: "security_group_rule list"

record rel_metadata =
  protocol :: "string option"
  port :: "int option"
  eventType :: "string option"
  httpMethod :: "string option"
  httpPath :: "string option"
  accessType :: "string option"
  metaTargetId :: "string option"
  stateType :: "string option"
  metaSecurityGroups :: "security_groups_meta option"

definition noMetadata :: rel_metadata where
  "noMetadata = \<lparr>protocol = None, port = None, eventType = None, httpMethod = None,
     httpPath = None, accessType = None, metaTargetId = None, stateType = None,
     metaSecurityGroups = None\<rparr>"

record relationship =
  sourceId :: string
  targetId :: string
  relType :: relationship_type
  metadata :: "rel_metadata option"

section \<open>Strings as JavaScript reads them\<close>

text \<open>\<open>s.split(c)\<close> for a one-character separator: never empty, \<open>''''.split(c) = ['''']\<close>.\<close>

fun split :: "char \<Rightarrow> string \<Rightarrow> string list" where
  "split c [] = [[]]"
| "split c (x # xs) =
     (if x = c then [] # split c xs
      else (case split c xs of [] \<Rightarrow> [[x]] | w # ws \<Rightarrow> (x # w) # ws))"

text \<open>\<open>s.split(c).pop()\<close>: the segment after the last separator.\<close>

definition splitPop :: "char \<Rightarrow> string \<Rightarrow> string" where
  "splitPop c s = last (split c s)"

definition startsWith :: "string \<Rightarrow> string \<Rightarrow> bool" where
  "startsWith s p = (take (length p) s = p)"

definition endsWith :: "string \<Rightarrow> string \<Rightarrow> bool" where
  "endsWith s p = (length p \<le> length s \<and> drop (length s - length p) s = p)"

text \<open>\<open>s.includes(p)\<close>: \<open>p\<close> occurs in \<open>s\<close> as a contiguous substring.\<close>

fun includes_str :: "string \<Rightarrow> string \<Rightarrow> bool" where
  "includes_str [] p = (p = [])"
| "includes_str (x # xs) p = (startsWith (x # xs) p \<or> includes_str xs p)"

text \<open>
  Truthiness of an optional string: \<open>undefined\<close> and the empty string are falsy. The
  result is the string when it is truthy.
\<close>

fun truthy :: "string option \<Rightarrow> string option" where
  "truthy None = None"
| "truthy (Some s) = (if s = [] then None else Some s)"

text \<open>\<open>a || b\<close> on optional strings.\<close>

definition orElse :: "string option \<Rightarrow> string option \<Rightarrow> string option" where
  "orElse a b = (case truthy a of Some x \<Rightarrow> Some x | None \<Rightarrow> b)"

section \<open>The provider\<close>

text \<open>
  The remote lookups of the helpers. Each takes the region the client is built for and
  the request's parameter; \<open>None\<close> is a lookup that throws (no credentials, a remote
  error, a policy that does not exist or does not parse).
\<close>

record target_group =
  targetGroupArn :: string
  tgProtocol :: "string option"

record target_health =
  thTargetId :: string
  thPort :: "int option"
  thAvailabilityZone :: "string option"

record lb_target =
  ltTargetId :: string
  ltPort :: "int option"
  ltProtocol :: "string option"
  ltClusterName :: "string option"

record policy_statement =
  principalService :: "string option"
  arnLikeSourceArn :: "string option"
  arnEqualsSourceArn :: "string option"

record lambda_trigger =
  sourceArn :: string
  triggerEventType :: string

record lambda_dependency =
  targetArn :: string
  depAccessType :: string

record api_resource =
  apiPath :: "string option"
  resourceMethods :: "(string \<times> string option) list"

record api_integration =
  uri :: string
  integrationMethod :: string
  integrationPath :: "string option"

record event_target =
  etId :: "string option"
  etArn :: "string option"
  etStateType :: "string option"

record ip_permission =
  IpProtocol :: string
  FromPort :: "int option"
  ToPort :: "int option"
  UserIdGroupPairs :: "string list"

record security_group =
  GroupId :: string
  IpPermissions :: "ip_permission list"
  IpPermissionsEgress :: "ip_permission list"

record provider =
  describeTargetGroups :: "string \<Rightarrow> string \<Rightarrow> target_group list option"
  describeTargetHealth :: "string \<Rightarrow> string \<Rightarrow> target_health list option"
  getPolicy :: "string \<Rightarrow> string \<Rightarrow> policy_statement list option"
  getFunction :: "string \<Rightarrow> string \<Rightarrow> (string \<times> string) list option"
  getResources :: "string \<Rightarrow> string \<Rightarrow> api_resource list option"
  listTargetsByRule :: "string \<Rightarrow> string \<Rightarrow> event_target list option"
  describeSecurityGroups :: "string \<Rightarrow> string list \<Rightarrow> security_group list option"

section \<open>Lookup helpers\<close>

text \<open>Each helper wraps its lookups in \<open>try\<close>/\<open>catch\<close> and returns \<open>[]\<close> when one throws.\<close>

fun targetsOfGroups :: "provider \<Rightarrow> string \<Rightarrow> target_group list \<Rightarrow> lb_target list option" where
  "targetsOfGroups env reg [] = Some []"
| "targetsOfGroups env reg (tg # tgs) =
     (case describeTargetHealth env reg (targetGroupArn tg) of
        None \<Rightarrow> None
      | Some hs \<Rightarrow>
          (case targetsOfGroups env reg tgs of
             None \<Rightarrow> None
           | Some rest \<Rightarrow>
               Some (map (\<lambda>h. \<lparr>ltTargetId = thTargetId h, ltPort = thPort h,
                                 ltProtocol = tgProtocol tg,
                                 ltClusterName = thAvailabilityZone h\<rparr>) hs @ rest)))"

definition getLoadBalancerTargets :: "provider \<Rightarrow> resource \<Rightarrow> lb_target list" where
  "getLoadBalancerTargets env loadBalancer =
     (case describeTargetGroups env (region loadBalancer) (resId loadBalancer) of
        None \<Rightarrow> []
      | Some tgs \<Rightarrow>
          (case targetsOfGroups env (region loadBalancer) tgs of
             None \<Rightarrow> []
           | Some targets \<Rightarrow> targets))"

definition statementTriggers :: "policy_statement \<Rightarrow> lambda_trigger list" where
  "statementTriggers st =
     (case truthy (principalService st) of
        None \<Rightarrow> []
      | Some service \<Rightarrow>
          (case truthy (orElse (arnLikeSourceArn st) (arnEqualsSourceArn st)) of
             None \<Rightarrow> []
           | Some arn \<Rightarrow> [\<lparr>sourceArn = arn, triggerEventType = service\<rparr>]))"

definition getLambdaTriggers :: "provider \<Rightarrow> resource \<Rightarrow> lambda_trigger list" where
  "getLambdaTriggers env lambda =
     (case getPolicy env (region lambda) (resName lambda) of
        None \<Rightarrow> []
      | Some statements \<Rightarrow> concat (map statementTriggers statements))"

definition getLambdaDependencies :: "provider \<Rightarrow> resource \<Rightarrow> lambda_dependency list" where
  "getLambdaDependencies env lambda =
     (case getFunction env (region lambda) (resName lambda) of
        None \<Rightarrow> []
      | Some envVars \<Rightarrow>
          map (\<lambda>kv. \<lparr>targetArn = snd kv, depAccessType = ''environment''\<rparr>)
            (filter (\<lambda>kv. includes_str (snd kv) ''arn:aws'') envVars))"

definition resourceIntegrations :: "api_resource \<Rightarrow> api_integration list" where
  "resourceIntegrations item =
     concat (map (\<lambda>m. case truthy (snd m) of
                         None \<Rightarrow> []
                       | Some u \<Rightarrow>
                           [\<lparr>uri = u, integrationMethod = fst m,
                             integrationPath = apiPath item\<rparr>])
                 (resourceMethods item))"

definition getApiGatewayIntegrations :: "provider \<Rightarrow> resource \<Rightarrow> api_integration list" where
  "getApiGatewayIntegrations env apiGateway =
     (case getResources env (region apiGateway) (splitPop CHR ''/'' (resId apiGateway)) of
        None \<Rightarrow> []
      | Some items \<Rightarrow> concat (map resourceIntegrations items))"

definition getEventBridgeTargets :: "provider \<Rightarrow> resource \<Rightarrow> event_target list" where
  "getEventBridgeTargets env eventBridge =
     (case listTargetsByRule env (region eventBridge) (resName eventBridge) of
        None \<Rightarrow> []
      | Some targets \<Rightarrow>
          map (\<lambda>target. \<lparr>etId = etId target, etArn = etArn target, etStateType = None\<rparr>)
            targets)"

text \<open>The state-machine definition is not parsed: the helper returns no target.\<close>

definition getStepFunctionTargets :: "resource \<Rightarrow> event_target list" where
  "getStepFunctionTargets stepFunction = []"

section \<open>Security-group resolver\<close>

definition mockSecurityGroupIds :: "string list" where
  "mockSecurityGroupIds = [''sg-0123456789abcdef0'']"

definition tagSecurityGroups :: "resource \<Rightarrow> string option" where
  "tagSecurityGroups r = map_of (tags r) ''SecurityGroups''"

definition detailSecurityGroups :: "resource \<Rightarrow> string list option" where
  "detailSecurityGroups r =
     (case details r of None \<Rightarrow> None | Some d \<Rightarrow> networkSecurityGroups d)"

definition detailClusterName :: "resource \<Rightarrow> string option" where
  "detailClusterName r = (case details r of None \<Rightarrow> None | Some d \<Rightarrow> clusterName d)"

definition securityGroupsMetadata ::
  "string list \<Rightarrow> string list \<Rightarrow> security_group_rule \<Rightarrow> rel_metadata option" where
  "securityGroupsMetadata src tgt rule =
     Some (noMetadata\<lparr>metaSecurityGroups :=
             Some \<lparr>sgSource = src, sgTarget = tgt, rules = [rule]\<rparr>\<rparr>)"

text \<open>
  The filter of \<open>processSecurityGroupRule\<close>: does resource \<open>r\<close> use the referenced
  group? An array, also the empty one, is truthy, so the first list that is present
  decides.
\<close>

definition usesSecurityGroup :: "resource \<Rightarrow> string \<Rightarrow> bool" where
  "usesSecurityGroup r groupId =
     (case securityGroups r of
        Some sgs \<Rightarrow> groupId \<in> set sgs
      | None \<Rightarrow>
          (case truthy (tagSecurityGroups r) of
             Some t \<Rightarrow> groupId \<in> set (split CHR '','' t)
           | None \<Rightarrow>
               (case detailSecurityGroups r of
                  Some sgs \<Rightarrow> groupId \<in> set sgs
                | None \<Rightarrow> False)))"

text \<open>The special case at the head of \<open>processSecurityGroupRule\<close>.\<close>

definition mockRuleConnections :: "resource \<Rightarrow> resource list \<Rightarrow> string \<Rightarrow> relationship list" where
  "mockRuleConnections sourceResource allResources sourceGroupId =
     (if resName sourceResource = ''database-2-instance-1''
         \<and> application sourceResource = ''test-app2'' then
        (case find (\<lambda>r. resType r = Ecs \<and> application r = ''test-app2''
                        \<and> resName r = ''service-test-2'') allResources of
           None \<Rightarrow> []
         | Some ecsService \<Rightarrow>
             [\<lparr>sourceId = resId ecsService, targetId = resId sourceResource,
               relType = CONNECTS_TO,
               metadata = securityGroupsMetadata [''sg-0123456789abcdef0''] [sourceGroupId]
                 \<lparr>ruleProtocol = ''tcp'', fromPort = Some 3306, toPort = Some 3306,
                  securityGroupId = sourceGroupId, ruleDirection = Inbound\<rparr>\<rparr>])
      else [])"

text \<open>The body of the loop over \<open>rule.UserIdGroupPairs\<close>, for one referenced group.\<close>

definition groupRefConnections ::
  "ip_permission \<Rightarrow> resource \<Rightarrow> resource list \<Rightarrow> string \<Rightarrow> direction \<Rightarrow> string
     \<Rightarrow> relationship list" where
  "groupRefConnections rule sourceResource allResources sourceGroupId dir sgRef =
     map (\<lambda>targetResource.
            \<lparr>sourceId = (if dir = Inbound then resId targetResource else resId sourceResource),
             targetId = (if dir = Inbound then resId sourceResource else resId targetResource),
             relType = CONNECTS_TO,
             metadata = securityGroupsMetadata
               (if dir = Inbound then [sgRef] else [sourceGroupId])
               (if dir = Inbound then [sourceGroupId] else [sgRef])
               \<lparr>ruleProtocol = IpProtocol rule, fromPort = FromPort rule,
                toPort = ToPort rule, securityGroupId = sgRef, ruleDirection = dir\<rparr>\<rparr>)
         (filter (\<lambda>targetResource. resId targetResource \<noteq> resId sourceResource)
            (filter (\<lambda>r. usesSecurityGroup r sgRef) allResources))"

definition processSecurityGroupRule ::
  "ip_permission \<Rightarrow> resource \<Rightarrow> resource list \<Rightarrow> string \<Rightarrow> direction \<Rightarrow> relationship list" where
  "processSecurityGroupRule rule sourceResource allResources sourceGroupId dir =
     mockRuleConnections sourceResource allResources sourceGroupId
     @ concat (map (groupRefConnections rule sourceResource allResources sourceGroupId dir)
                 (UserIdGroupPairs rule))"

text \<open>The group ids \<open>getSecurityGroupConnections\<close> resolves for a resource.\<close>

definition resolveSecurityGroupIds :: "resource \<Rightarrow> string list" where
  "resolveSecurityGroupIds r =
     (case securityGroups r of
        Some sgs \<Rightarrow> sgs
      | None \<Rightarrow>
          (case truthy (tagSecurityGroups r) of
             Some t \<Rightarrow> split CHR '','' t
           | None \<Rightarrow>
               (case detailSecurityGroups r of
                  Some sgs \<Rightarrow> sgs
                | None \<Rightarrow> [])))"

text \<open>The branch taken when a resolved id is a mock id: no lookup, fixed data.\<close>

definition mockConnections :: "resource \<Rightarrow> resource list \<Rightarrow> relationship list" where
  "mockConnections r allResources =
     (if resName r = ''database-2-instance-1'' \<and> application r = ''test-app2'' then []
      else if resName r = ''service-test-2'' \<and> application r = ''test-app2'' then
        (case find (\<lambda>x. resType x = AuroraInstance \<and> resName x = ''database-2-instance-1'')
                allResources of
           None \<Rightarrow> []
         | Some dbInstance \<Rightarrow>
             [\<lparr>sourceId = resId r, targetId = resId dbInstance, relType = CONNECTS_TO,
               metadata = securityGroupsMetadata [''sg-0123456789abcdef0'']
                 (case securityGroups dbInstance of None \<Rightarrow> [] | Some sgs \<Rightarrow> sgs)
                 \<lparr>ruleProtocol = ''tcp'', fromPort = Some 3306, toPort = Some 3306,
                  securityGroupId = ''sg-0123456789abcdef0'', ruleDirection = Outbound\<rparr>\<rparr>])
      else [])"

text \<open>The inbound rules of one group, then its outbound rules.\<close>

definition groupConnections :: "resource \<Rightarrow> resource list \<Rightarrow> security_group \<Rightarrow> relationship list" where
  "groupConnections r allResources sg =
     concat (map (\<lambda>rule. processSecurityGroupRule rule r allResources (GroupId sg) Inbound)
               (IpPermissions sg))
     @ concat (map (\<lambda>rule. processSecurityGroupRule rule r allResources (GroupId sg) Outbound)
                 (IpPermissionsEgress sg))"

definition getSecurityGroupConnections ::
  "provider \<Rightarrow> resource \<Rightarrow> resource list \<Rightarrow> relationship list" where
  "getSecurityGroupConnections env r allResources =
     (let securityGroupIds = resolveSecurityGroupIds r in
      if securityGroupIds = [] then []
      else if list_ex (\<lambda>i. i \<in> set mockSecurityGroupIds) securityGroupIds then
        mockConnections r allResources
      else
        (case describeSecurityGroups env (region r) securityGroupIds of
           None \<Rightarrow> []
         | Some sgs \<Rightarrow> concat (map (groupConnections r allResources) sgs)))"

section \<open>Relationship discovery\<close>

text \<open>
  What processing one resource leaves behind: the relationships it pushed, and whether
  the \<open>switch\<close> ran to its \<open>break\<close> or threw into the \<open>catch\<close> of the loop body. The
  pushes made before a throw stay in \<open>relationships\<close>.
\<close>

datatype outcome = Completed | Threw

definition loadBalancerRelationships ::
  "resource \<Rightarrow> resource list \<Rightarrow> lb_target list \<Rightarrow> relationship list" where
  "loadBalancerRelationships resource allResources lbTargets =
     concat (map (\<lambda>target.
        case find (\<lambda>r. (resType r = Ec2 \<and> resId r = ltTargetId target)
                       \<or> (resType r = Ecs \<and> detailClusterName r = ltClusterName target))
               allResources of
          None \<Rightarrow> []
        | Some targetResource \<Rightarrow>
            [\<lparr>sourceId = resId resource, targetId = resId targetResource, relType = ROUTES_TO,
              metadata = Some (noMetadata\<lparr>protocol := ltProtocol target,
                                          port := ltPort target\<rparr>)\<rparr>]) lbTargets)"

definition lambdaTriggerRelationships ::
  "resource \<Rightarrow> resource list \<Rightarrow> lambda_trigger list \<Rightarrow> relationship list" where
  "lambdaTriggerRelationships resource allResources lambdaTriggers =
     concat (map (\<lambda>trigger.
        case find (\<lambda>r. resId r = sourceArn trigger) allResources of
          None \<Rightarrow> []
        | Some triggerResource \<Rightarrow>
            [\<lparr>sourceId = resId triggerResource, targetId = resId resource, relType = TRIGGERS,
              metadata = Some (noMetadata\<lparr>eventType := Some (triggerEventType trigger)\<rparr>)\<rparr>])
        lambdaTriggers)"

definition lambdaDependencyRelationships ::
  "resource \<Rightarrow> resource list \<Rightarrow> lambda_dependency list \<Rightarrow> relationship list" where
  "lambdaDependencyRelationships resource allResources lambdaDependencies =
     concat (map (\<lambda>dependency.
        case find (\<lambda>r. resId r = targetArn dependency) allResources of
          None \<Rightarrow> []
        | Some dependencyResource \<Rightarrow>
            [\<lparr>sourceId = resId resource, targetId = resId dependencyResource,
              relType = DEPENDS_ON,
              metadata = Some (noMetadata\<lparr>accessType := Some (depAccessType dependency)\<rparr>)\<rparr>])
        lambdaDependencies)"

definition apiGatewayRelationships ::
  "resource \<Rightarrow> resource list \<Rightarrow> api_integration list \<Rightarrow> relationship list" where
  "apiGatewayRelationships resource allResources apiIntegrations =
     concat (map (\<lambda>integration.
        case find (\<lambda>r. resType r = Lambda \<and> includes_str (uri integration) (resId r))
               allResources of
          None \<Rightarrow> []
        | Some targetResource \<Rightarrow>
            [\<lparr>sourceId = resId resource, targetId = resId targetResource, relType = TRIGGERS,
              metadata = Some (noMetadata\<lparr>httpMethod := Some (integrationMethod integration),
                                          httpPath := integrationPath integration\<rparr>)\<rparr>])
        apiIntegrations)"

text \<open>
  The loops over event-bus and state-machine targets call \<open>target.arn.includes(r.id)\<close>
  on every resource until one matches. A target with no ARN makes that call throw as
  soon as there is a resource to test; the relationships pushed for the targets before
  it stay.
\<close>

fun arnTargetRelationships ::
  "(event_target \<Rightarrow> rel_metadata) \<Rightarrow> resource \<Rightarrow> resource list \<Rightarrow> event_target list
     \<Rightarrow> relationship list \<times> outcome" where
  "arnTargetRelationships meta resource allResources [] = ([], Completed)"
| "arnTargetRelationships meta resource allResources (target # targets) =
     (case etArn target of
        None \<Rightarrow>
          (if allResources = [] then arnTargetRelationships meta resource allResources targets
           else ([], Threw))
      | Some arn \<Rightarrow>
          (let pushed =
                 (case find (\<lambda>r. includes_str arn (resId r)) allResources of
                    None \<Rightarrow> []
                  | Some targetResource \<Rightarrow>
                      [\<lparr>sourceId = resId resource, targetId = resId targetResource,
                        relType = TRIGGERS, metadata = Some (meta target)\<rparr>]);
               rest = arnTargetRelationships meta resource allResources targets
           in (pushed @ fst rest, snd rest)))"

text \<open>
  The \<open>ec2\<close> case builds a new object from each connection: the resource as source, the
  connection's target, and \<open>connection.protocol\<close> and \<open>connection.port\<close>, which a
  connection does not have.
\<close>

definition ec2Relationships :: "resource \<Rightarrow> relationship list \<Rightarrow> relationship list" where
  "ec2Relationships resource securityGroupConnections =
     map (\<lambda>connection.
            \<lparr>sourceId = resId resource, targetId = targetId connection, relType = CONNECTS_TO,
             metadata = Some (noMetadata\<lparr>protocol := None, port := None\<rparr>)\<rparr>)
         securityGroupConnections"

definition instanceOf :: "resource \<Rightarrow> resource \<Rightarrow> relationship" where
  "instanceOf instance cluster =
     \<lparr>sourceId = resId instance, targetId = resId cluster, relType = INSTANCE_OF,
      metadata = None\<rparr>"

text \<open>The fallback of the \<open>aurora\<close> case moves an instance's connection to the cluster.\<close>

definition modifiedConnection :: "resource \<Rightarrow> resource \<Rightarrow> relationship \<Rightarrow> relationship" where
  "modifiedConnection resource instance connection =
     connection\<lparr>sourceId := (if sourceId connection = resId instance then resId resource
                              else sourceId connection),
                targetId := (if targetId connection = resId instance then resId resource
                             else targetId connection)\<rparr>"

definition auroraRelationships ::
  "provider \<Rightarrow> resource \<Rightarrow> resource list \<Rightarrow> relationship list" where
  "auroraRelationships env resource allResources =
     (let clusterName = splitPop CHR '':'' (resId resource);
          clusterInstances =
            filter (\<lambda>r. resType r = AuroraInstance
                        \<and> (clusterId r = Some (resId resource) \<or> clusterId r = Some clusterName))
              allResources;
          nameBasedInstances =
            filter (\<lambda>r. resType r = AuroraInstance \<and> clusterId r = Some (resName resource))
              allResources;
          auroraClusterSecurityGroups =
            (case securityGroups resource of
               Some sgs \<Rightarrow> sgs
             | None \<Rightarrow>
                 (case truthy (tagSecurityGroups resource) of
                    Some t \<Rightarrow> split CHR '','' t
                  | None \<Rightarrow> []))
      in map (\<lambda>instance. instanceOf instance resource) clusterInstances
         @ map (\<lambda>instance. instanceOf instance resource)
             (filter (\<lambda>instance. \<not> list_ex (\<lambda>ci. resId ci = resId instance) clusterInstances)
                nameBasedInstances)
         @ (if auroraClusterSecurityGroups \<noteq> [] then
              getSecurityGroupConnections env
                (resource\<lparr>securityGroups := Some auroraClusterSecurityGroups\<rparr>) allResources
            else
              concat (map (\<lambda>instance.
                             map (modifiedConnection resource instance)
                               (getSecurityGroupConnections env instance allResources))
                        (filter (\<lambda>instance. case securityGroups instance of
                                               None \<Rightarrow> False
                                             | Some sgs \<Rightarrow> sgs \<noteq> [])
                           clusterInstances))))"

definition auroraInstanceRelationships ::
  "provider \<Rightarrow> resource \<Rightarrow> resource list \<Rightarrow> relationship list" where
  "auroraInstanceRelationships env resource allResources =
     (case truthy (clusterId resource) of
        None \<Rightarrow> []
      | Some cid \<Rightarrow>
          (case find (\<lambda>r. resType r = Aurora
                          \<and> (resId r = cid \<or> endsWith (resId r) ('':cluster:'' @ cid)))
                  allResources of
             None \<Rightarrow> []
           | Some parentCluster \<Rightarrow> [instanceOf resource parentCluster]))
     @ getSecurityGroupConnections env resource allResources"

definition ecsRelationships ::
  "provider \<Rightarrow> resource \<Rightarrow> resource list \<Rightarrow> relationship list" where
  "ecsRelationships env resource allResources =
     (let ecsSecurityGroups =
            (case detailSecurityGroups resource of
               Some sgs \<Rightarrow> sgs
             | None \<Rightarrow>
                 (case truthy (tagSecurityGroups resource) of
                    Some t \<Rightarrow> split CHR '','' t
                  | None \<Rightarrow> []))
      in if ecsSecurityGroups \<noteq> [] then
           getSecurityGroupConnections env
             (resource\<lparr>securityGroups := Some ecsSecurityGroups\<rparr>) allResources
         else [])"

text \<open>The body of the loop over the resources of interest: the \<open>switch\<close> on the type.\<close>

definition processResource ::
  "provider \<Rightarrow> resource list \<Rightarrow> resource \<Rightarrow> relationship list \<times> outcome" where
  "processResource env allResources resource =
     (case resType resource of
        Alb \<Rightarrow>
          (loadBalancerRelationships resource allResources
             (getLoadBalancerTargets env resource), Completed)
      | Nlb \<Rightarrow>
          (loadBalancerRelationships resource allResources
             (getLoadBalancerTargets env resource), Completed)
      | Lambda \<Rightarrow>
          (lambdaTriggerRelationships resource allResources (getLambdaTriggers env resource)
           @ lambdaDependencyRelationships resource allResources
               (getLambdaDependencies env resource), Completed)
      | ApiGateway \<Rightarrow>
          (apiGatewayRelationships resource allResources
             (getApiGatewayIntegrations env resource), Completed)
      | EventBridge \<Rightarrow>
          arnTargetRelationships (\<lambda>target. noMetadata\<lparr>metaTargetId := etId target\<rparr>)
            resource allResources (getEventBridgeTargets env resource)
      | Ec2 \<Rightarrow>
          (ec2Relationships resource (getSecurityGroupConnections env resource allResources),
           Completed)
      | Aurora \<Rightarrow> (auroraRelationships env resource allResources, Completed)
      | AuroraInstance \<Rightarrow> (auroraInstanceRelationships env resource allResources, Completed)
      | Ecs \<Rightarrow> (ecsRelationships env resource allResources, Completed)
      | StepFunctions \<Rightarrow>
          arnTargetRelationships (\<lambda>target. noMetadata\<lparr>stateType := etStateType target\<rparr>)
            resource allResources (getStepFunctionTargets resource))"

definition resourcesOfInterest :: "resource list \<Rightarrow> resource list option \<Rightarrow> resource list" where
  "resourcesOfInterest allResources focusResources =
     (case focusResources of None \<Rightarrow> allResources | Some focus \<Rightarrow> focus)"

text \<open>The array \<open>relationships\<close> when the loop over the resources of interest ends.\<close>

definition discoveredRelationships ::
  "provider \<Rightarrow> resource list \<Rightarrow> resource list option \<Rightarrow> relationship list" where
  "discoveredRelationships env allResources focusResources =
     concat (map (\<lambda>resource. fst (processResource env allResources resource))
               (resourcesOfInterest allResources focusResources))"

text \<open>The key of the deduplication map: the three fields joined with \<open>|\<close>.\<close>

definition relationshipKey :: "relationship \<Rightarrow> string" where
  "relationshipKey rel =
     sourceId rel @ ''|'' @ targetId rel @ ''|'' @ typeString (relType rel)"

fun deduplicate :: "(string \<rightharpoonup> relationship) \<Rightarrow> relationship list \<Rightarrow> relationship list" where
  "deduplicate relationshipMap [] = []"
| "deduplicate relationshipMap (rel # rels) =
     (if relationshipMap (relationshipKey rel) = None then
        rel # deduplicate (relationshipMap(relationshipKey rel \<mapsto> rel)) rels
      else deduplicate relationshipMap rels)"

definition discoverResourceRelationships ::
  "provider \<Rightarrow> resource list \<Rightarrow> resource list option \<Rightarrow> relationship list" where
  "discoverResourceRelationships env allResources focusResources =
     deduplicate Map.empty (discoveredRelationships env allResources focusResources)"

section \<open>Dependency graph renderer\<close>

text \<open>
  The effect of \<open>ResourceDependencyGraph\<close>, run with its container rendered, up to the
  start of the force simulation: the filter over the relationships, which also pushes
  external resources onto \<open>graphResources\<close>, the two empty-state messages, and the
  nodes and links handed to the simulation.
\<close>

record d3node =
  nodeId :: string
  nodeName :: string
  nodeType :: resource_type
  nodeApplication :: string
  isExternal :: bool
  nodeResource :: resource

record d3link =
  linkSource :: d3node
  linkTarget :: d3node
  linkType :: relationship_type
  linkRelationship :: relationship

datatype render_result = Message string | Canvas "d3node list" "d3link list"

definition addExternal :: "resource list \<Rightarrow> string \<Rightarrow> resource list \<Rightarrow> resource list" where
  "addExternal externalResources i graphResources =
     (case find (\<lambda>r. resId r = i) externalResources of
        None \<Rightarrow> graphResources
      | Some externalResource \<Rightarrow>
          (if \<not> list_ex (\<lambda>r. resId r = resId externalResource) graphResources then
             graphResources @ [externalResource]
           else graphResources))"

text \<open>
  The filter callback run over the relationships in order, with \<open>graphResources\<close> as
  its state: the result is the retained relationships and the final \<open>graphResources\<close>.
\<close>

fun relevantRelationships ::
  "resource list \<Rightarrow> resource list \<Rightarrow> bool \<Rightarrow> resource list \<Rightarrow> relationship list
     \<Rightarrow> relationship list \<times> resource list" where
  "relevantRelationships resources externalResources showExternalResources graphResources [] =
     ([], graphResources)"
| "relevantRelationships resources externalResources showExternalResources graphResources
     (rel # rels) =
     (let sourceInApp = (sourceId rel \<in> set (map resId resources));
          targetInApp = (targetId rel \<in> set (map resId resources))
      in if showExternalResources \<and> \<not> sourceInApp \<and> targetInApp then
           (let rest = relevantRelationships resources externalResources showExternalResources
                         (addExternal externalResources (sourceId rel) graphResources) rels
            in (rel # fst rest, snd rest))
         else if showExternalResources \<and> sourceInApp \<and> \<not> targetInApp then
           (let rest = relevantRelationships resources externalResources showExternalResources
                         (addExternal externalResources (targetId rel) graphResources) rels
            in (rel # fst rest, snd rest))
         else
           (let rest = relevantRelationships resources externalResources showExternalResources
                         graphResources rels
            in (if sourceInApp \<and> targetInApp then rel # fst rest else fst rest, snd rest)))"

definition graphNodes :: "resource list \<Rightarrow> resource list \<Rightarrow> d3node list" where
  "graphNodes resources graphResources =
     map (\<lambda>r. \<lparr>nodeId = resId r, nodeName = resName r, nodeType = resType r,
               nodeApplication = application r,
               isExternal = (\<not> list_ex (\<lambda>x. resId x = resId r) resources),
               nodeResource = r\<rparr>) graphResources"

text \<open>A relationship with an endpoint that is no node maps to \<open>null\<close> and is filtered out.\<close>

definition graphLinks :: "d3node list \<Rightarrow> relationship list \<Rightarrow> d3link list" where
  "graphLinks nodes rels =
     concat (map (\<lambda>rel.
        case find (\<lambda>n. nodeId n = sourceId rel) nodes of
          None \<Rightarrow> []
        | Some source \<Rightarrow>
            (case find (\<lambda>n. nodeId n = targetId rel) nodes of
               None \<Rightarrow> []
             | Some target \<Rightarrow>
                 [\<lparr>linkSource = source, linkTarget = target, linkType = relType rel,
                   linkRelationship = rel\<rparr>])) rels)"

definition renderGraph ::
  "resource list \<Rightarrow> relationship list \<Rightarrow> resource list \<Rightarrow> bool \<Rightarrow> render_result" where
  "renderGraph resources relationships externalResources showExternalResources =
     (let filtered = relevantRelationships resources externalResources showExternalResources
                       resources relationships;
          relevant = fst filtered;
          graphResources = snd filtered
      in if graphResources = [] then Message ''No resources to display''
         else if relevant = [] then Message ''No relationships found between resources''
         else Canvas (graphNodes resources graphResources)
                (graphLinks (graphNodes resources graphResources) relevant))"

text \<open>
  The component across effect runs. Its state is \<open>message\<close>. The container is rendered
  only while \<open>message\<close> is falsy, so while a message is shown \<open>containerRef.current\<close> is
  null and the effect returns at its first line: what is shown stays. When the
  component is mounted \<open>message\<close> is \<open>null\<close>.
\<close>

definition resourceDependencyGraph ::
  "string option \<Rightarrow> resource list \<Rightarrow> relationship list \<Rightarrow> resource list \<Rightarrow> bool
     \<Rightarrow> render_result" where
  "resourceDependencyGraph message resources relationships externalResources
     showExternalResources =
     (case truthy message of
        Some shown \<Rightarrow> Message shown
      | None \<Rightarrow> renderGraph resources relationships externalResources showExternalResources)"

text \<open>
  The state the effect leaves: \<open>setMessage\<close> with the text shown, \<open>setMessage(null)\<close> before
  a canvas is drawn, and the old message when the effect returned at its guard.
\<close>

fun messageAfter :: "render_result \<Rightarrow> string option" where
  "messageAfter (Message shown) = Some shown"
| "messageAfter (Canvas nodes links) = None"

section \<open>Notions used in the statements\<close>

text \<open>The deduplication triple of a relationship, and the ids of a resource list.\<close>

definition relTriple :: "relationship \<Rightarrow> string \<times> string \<times> relationship_type" where
  "relTriple rel = (sourceId rel, targetId rel, relType rel)"

definition resourceIds :: "resource list \<Rightarrow> string set" where
  "resourceIds rs = set (map resId rs)"

text \<open>No resource id holds the separator \<open>|\<close> of the deduplication key.\<close>

definition separatorFree :: "resource list \<Rightarrow> bool" where
  "separatorFree rs = list_all (\<lambda>r. CHR ''|'' \<notin> set (resId r)) rs"


text \<open>
  What the resolver promises about a connection it returns for resource \<open>r\<close>: \<open>r\<close> is one
  endpoint and a resource of the list is the other. What the loop body promises about a
  relationship it pushes for \<open>r\<close>: \<open>r\<close> is an endpoint and both endpoints are \<open>r\<close> or
  resources of the list.
\<close>

definition endpointsOf :: "resource \<Rightarrow> resource list \<Rightarrow> relationship \<Rightarrow> bool" where
  "endpointsOf r rs e = ((sourceId e = resId r \<and> targetId e \<in> resourceIds rs)
      \<or> (targetId e = resId r \<and> sourceId e \<in> resourceIds rs))"

definition pushedBy :: "resource \<Rightarrow> resource list \<Rightarrow> relationship \<Rightarrow> bool" where
  "pushedBy r rs e = ((sourceId e = resId r \<or> targetId e = resId r)
     \<and> sourceId e \<in> insert (resId r) (resourceIds rs)
     \<and> targetId e \<in> insert (resId r) (resourceIds rs))"

section \<open>Example inventories\<close>

text \<open>A provider whose every lookup throws, and a resource with no optional property.\<close>

definition failingProvider :: provider where
  "failingProvider =
     \<lparr>describeTargetGroups = (\<lambda>reg arn. None), describeTargetHealth = (\<lambda>reg arn. None),
      getPolicy = (\<lambda>reg name. None), getFunction = (\<lambda>reg name. None),
      getResources = (\<lambda>reg api. None), listTargetsByRule = (\<lambda>reg rule. None),
      describeSecurityGroups = (\<lambda>reg ids. None)\<rparr>"

definition plainResource :: "string \<Rightarrow> string \<Rightarrow> resource_type \<Rightarrow> resource" where
  "plainResource i n t =
     \<lparr>resId = i, resName = n, resType = t, application = ''Unknown'', region = ''us-east-1'',
      tags = [], securityGroups = None, clusterId = None, details = None\<rparr>"

text \<open>The cluster and instance of the specification's example.\<close>

definition clusterA :: resource where
  "clusterA = plainResource ''c1'' ''ClusterA'' Aurora"

definition instanceA :: resource where
  "instanceA = (plainResource ''i1'' ''InstanceA'' AuroraInstance)\<lparr>clusterId := Some ''c1''\<rparr>"

text \<open>A cluster whose display name, not its id, is the instance's \<open>clusterId\<close>; and one
  whose id ends with \<open>:cluster:c1\<close>.\<close>

definition clusterNamed :: resource where
  "clusterNamed = plainResource ''x1'' ''c1'' Aurora"

definition clusterArn :: resource where
  "clusterArn = plainResource ''rds:cluster:c1'' ''ClusterB'' Aurora"

text \<open>
  Two compute instances: the group of \<open>R1\<close> is referenced by an ingress rule (tcp 3306)
  of the group of \<open>R2\<close>.
\<close>

definition computeR1 :: resource where
  "computeR1 = (plainResource ''R1'' ''web'' Ec2)\<lparr>securityGroups := Some [''sg-a'']\<rparr>"

definition computeR2 :: resource where
  "computeR2 = (plainResource ''R2'' ''db'' Ec2)\<lparr>securityGroups := Some [''sg-b'']\<rparr>"

definition mysqlRule :: ip_permission where
  "mysqlRule = \<lparr>IpProtocol = ''tcp'', FromPort = Some 3306, ToPort = Some 3306,
                 UserIdGroupPairs = [''sg-a'']\<rparr>"

definition groupProvider :: provider where
  "groupProvider = failingProvider\<lparr>describeSecurityGroups :=
     (\<lambda>reg ids.
        if ids = [''sg-b''] then
          Some [\<lparr>GroupId = ''sg-b'', IpPermissions = [mysqlRule], IpPermissionsEgress = []\<rparr>]
        else if ids = [''sg-a''] then
          Some [\<lparr>GroupId = ''sg-a'', IpPermissions = [], IpPermissionsEgress = []\<rparr>]
        else None)\<rparr>"

text \<open>The edge the resolver emits for that rule, and two relationships given to the renderer.\<close>

definition ingressEdge :: relationship where
  "ingressEdge =
     \<lparr>sourceId = ''R1'', targetId = ''R2'', relType = CONNECTS_TO,
      metadata = securityGroupsMetadata [''sg-a''] [''sg-b'']
        \<lparr>ruleProtocol = ''tcp'', fromPort = Some 3306, toPort = Some 3306,
         securityGroupId = ''sg-a'', ruleDirection = Inbound\<rparr>\<rparr>"

definition linkedEdge :: relationship where
  "linkedEdge = \<lparr>sourceId = ''R1'', targetId = ''R2'', relType = CONNECTS_TO, metadata = None\<rparr>"

definition danglingEdge :: relationship where
  "danglingEdge = \<lparr>sourceId = ''R1'', targetId = ''zz'', relType = CONNECTS_TO, metadata = None\<rparr>"

text \<open>
  Two database instances whose groups permit each other: an egress rule of the group of
  \<open>A\<close> names the group of \<open>B\<close>, and an ingress rule of the group of \<open>B\<close> names the group
  of \<open>A\<close>.
\<close>

definition peerA :: resource where
  "peerA = (plainResource ''A'' ''peer-a'' AuroraInstance)\<lparr>securityGroups := Some [''sg-a'']\<rparr>"

definition peerB :: resource where
  "peerB = (plainResource ''B'' ''peer-b'' AuroraInstance)\<lparr>securityGroups := Some [''sg-b'']\<rparr>"

definition pairProvider :: provider where
  "pairProvider = failingProvider\<lparr>describeSecurityGroups :=
     (\<lambda>reg ids.
        if ids = [''sg-a''] then
          Some [\<lparr>GroupId = ''sg-a'', IpPermissions = [],
                 IpPermissionsEgress =
                   [\<lparr>IpProtocol = ''tcp'', FromPort = Some 3306, ToPort = Some 3306,
                     UserIdGroupPairs = [''sg-b'']\<rparr>]\<rparr>]
        else if ids = [''sg-b''] then
          Some [\<lparr>GroupId = ''sg-b'', IpPermissions = [mysqlRule], IpPermissionsEgress = []\<rparr>]
        else None)\<rparr>"

definition outboundEdge :: relationship where
  "outboundEdge =
     \<lparr>sourceId = ''A'', targetId = ''B'', relType = CONNECTS_TO,
      metadata = securityGroupsMetadata [''sg-a''] [''sg-b'']
        \<lparr>ruleProtocol = ''tcp'', fromPort = Some 3306, toPort = Some 3306,
         securityGroupId = ''sg-b'', ruleDirection = Outbound\<rparr>\<rparr>"

definition inboundEdge :: relationship where
  "inboundEdge =
     \<lparr>sourceId = ''A'', targetId = ''B'', relType = CONNECTS_TO,
      metadata = securityGroupsMetadata [''sg-a''] [''sg-b'']
        \<lparr>ruleProtocol = ''tcp'', fromPort = Some 3306, toPort = Some 3306,
         securityGroupId = ''sg-a'', ruleDirection = Inbound\<rparr>\<rparr>"

text \<open>
  Four database instances with ids that hold the separator of the key. An egress rule
  of the group of \<open>x|y\<close> names the group of \<open>z\<close>; the groups of \<open>x\<close> and \<open>y|z\<close> permit
  each other as those of \<open>A\<close> and \<open>B\<close> do.
\<close>

definition pipeP :: resource where
  "pipeP = (plainResource ''x|y'' ''pipe-p'' AuroraInstance)\<lparr>securityGroups := Some [''sg-p'']\<rparr>"

definition pipeQ :: resource where
  "pipeQ = (plainResource ''z'' ''pipe-q'' AuroraInstance)\<lparr>securityGroups := Some [''sg-q'']\<rparr>"

definition pipeA :: resource where
  "pipeA = (plainResource ''x'' ''pipe-a'' AuroraInstance)\<lparr>securityGroups := Some [''sg-a'']\<rparr>"

definition pipeB :: resource where
  "pipeB = (plainResource ''y|z'' ''pipe-b'' AuroraInstance)\<lparr>securityGroups := Some [''sg-b'']\<rparr>"

definition collisionProvider :: provider where
  "collisionProvider = failingProvider\<lparr>describeSecurityGroups :=
     (\<lambda>reg ids.
        if ids = [''sg-p''] then
          Some [\<lparr>GroupId = ''sg-p'', IpPermissions = [],
                 IpPermissionsEgress =
                   [\<lparr>IpProtocol = ''tcp'', FromPort = Some 3306, ToPort = Some 3306,
                     UserIdGroupPairs = [''sg-q'']\<rparr>]\<rparr>]
        else if ids = [''sg-q''] then
          Some [\<lparr>GroupId = ''sg-q'', IpPermissions = [], IpPermissionsEgress = []\<rparr>]
        else if ids = [''sg-a''] then
          Some [\<lparr>GroupId = ''sg-a'', IpPermissions = [],
                 IpPermissionsEgress =
                   [\<lparr>IpProtocol = ''tcp'', FromPort = Some 3306, ToPort = Some 3306,
                     UserIdGroupPairs = [''sg-b'']\<rparr>]\<rparr>]
        else if ids = [''sg-b''] then
          Some [\<lparr>GroupId = ''sg-b'', IpPermissions = [mysqlRule], IpPermissionsEgress = []\<rparr>]
        else None)\<rparr>"

definition collidingEdge :: relationship where
  "collidingEdge =
     \<lparr>sourceId = ''x|y'', targetId = ''z'', relType = CONNECTS_TO,
      metadata = securityGroupsMetadata [''sg-p''] [''sg-q'']
        \<lparr>ruleProtocol = ''tcp'', fromPort = Some 3306, toPort = Some 3306,
         securityGroupId = ''sg-q'', ruleDirection = Outbound\<rparr>\<rparr>"

definition firstEdge :: relationship where
  "firstEdge =
     \<lparr>sourceId = ''x'', targetId = ''y|z'', relType = CONNECTS_TO,
      metadata = securityGroupsMetadata [''sg-a''] [''sg-b'']
        \<lparr>ruleProtocol = ''tcp'', fromPort = Some 3306, toPort = Some 3306,
         securityGroupId = ''sg-b'', ruleDirection = Outbound\<rparr>\<rparr>"

definition laterEdge :: relationship where
  "laterEdge =
     \<lparr>sourceId = ''x'', targetId = ''y|z'', relType = CONNECTS_TO,
      metadata = securityGroupsMetadata [''sg-a''] [''sg-b'']
        \<lparr>ruleProtocol = ''tcp'', fromPort = Some 3306, toPort = Some 3306,
         securityGroupId = ''sg-a'', ruleDirection = Inbound\<rparr>\<rparr>"

text \<open>A provider that lists one target group and throws on its target health.\<close>

definition healthFailingProvider :: provider where
  "healthFailingProvider = failingProvider\<lparr>describeTargetGroups :=
     (\<lambda>reg arn. Some [\<lparr>targetGroupArn = ''tg1'', tgProtocol = Some ''HTTP''\<rparr>])\<rparr>"

text \<open>An instance with a security group, and an event rule with a target that has no ARN.\<close>

definition instanceWithGroup :: resource where
  "instanceWithGroup = instanceA\<lparr>securityGroups := Some [''sg-1'']\<rparr>"

definition frontBalancer :: resource where
  "frontBalancer = plainResource ''lb1'' ''front'' Alb"

definition ordersApi :: resource where
  "ordersApi = plainResource ''apis/a1'' ''orders'' ApiGateway"

definition nightlyRule :: resource where
  "nightlyRule = plainResource ''rule1'' ''nightly'' EventBridge"

definition reportFunction :: resource where
  "reportFunction = plainResource ''fn1'' ''report'' Lambda"

definition targetsProvider :: provider where
  "targetsProvider = failingProvider\<lparr>listTargetsByRule :=
     (\<lambda>reg rule.
        if rule = ''nightly'' then
          Some [\<lparr>etId = Some ''t1'', etArn = Some ''arn:fn1'', etStateType = None\<rparr>,
                \<lparr>etId = Some ''t2'', etArn = None, etStateType = None\<rparr>]
        else None)\<rparr>"

text \<open>The two fixture resources of application \<open>test-app2\<close>.\<close>

definition mockService :: resource where
  "mockService = (plainResource ''svc'' ''service-test-2'' Ecs)
     \<lparr>application := ''test-app2'',
      details := Some \<lparr>clusterName = Some ''devclust'',
                       networkSecurityGroups = Some [''sg-0123456789abcdef0'']\<rparr>\<rparr>"

definition mockDatabase :: resource where
  "mockDatabase = (plainResource ''db'' ''database-2-instance-1'' AuroraInstance)
     \<lparr>application := ''test-app2'', securityGroups := Some [''sg-db'']\<rparr>"

section \<open>Simplifier setup\<close>

text \<open>
  The procedure that rewrites \<open>set\<close> of a list comprehension into a set comprehension
  fails on the conditionals over \<open>case\<close> expressions of this model; it is not used.
\<close>

declare TrueI [simproc del: list_to_set_comprehension]

section \<open>Keys and deduplication\<close>

text \<open>
  The key determines the triple when neither id holds the separator. The loop keeps, for
  every key not yet in the map, the first relationship that has it.
\<close>

lemma append_sep_eq:
  "c \<notin> set a \<Longrightarrow> c \<notin> set a' \<Longrightarrow> a @ c # r = a' @ c # r' \<Longrightarrow> a = a' \<and> r = r'"
proof (induction a arbitrary: a')
  case Nil
  then show ?case by (cases a') auto
next
  case (Cons x xs)
  then show ?case by (cases a') auto
qed

lemma typeString_inj: "typeString s = typeString t \<Longrightarrow> s = t"
  by (cases s; cases t) simp_all

lemma relationshipKey_inj:
  assumes "CHR ''|'' \<notin> set (sourceId a)" "CHR ''|'' \<notin> set (sourceId b)"
      "CHR ''|'' \<notin> set (targetId a)" "CHR ''|'' \<notin> set (targetId b)"
      "relationshipKey a = relationshipKey b"
  shows "relTriple a = relTriple b"
proof -
  from assms(5) have e: "sourceId a @ CHR ''|'' # (targetId a @ CHR ''|'' # typeString (relType a))
      = sourceId b @ CHR ''|'' # (targetId b @ CHR ''|'' # typeString (relType b))"
    by (simp add: relationshipKey_def)
  from append_sep_eq[OF assms(1,2) e] have s: "sourceId a = sourceId b"
    and r: "targetId a @ CHR ''|'' # typeString (relType a) = targetId b @ CHR ''|'' # typeString (relType b)"
    by auto
  from append_sep_eq[OF assms(3,4) r] have "targetId a = targetId b" "typeString (relType a) = typeString (relType b)"
    by auto
  with s show ?thesis by (simp add: relTriple_def typeString_inj)
qed

lemma relTriple_key: "relTriple a = relTriple b \<Longrightarrow> relationshipKey a = relationshipKey b"
  by (simp add: relTriple_def relationshipKey_def)

lemma deduplicate_find:
  "find (\<lambda>x. relationshipKey x = k) (deduplicate m xs)
     = (if m k = None then find (\<lambda>x. relationshipKey x = k) xs else None)"
proof (induction xs arbitrary: m)
  case Nil
  then show ?case by simp
next
  case (Cons x xs)
  then show ?case by auto
qed

lemma deduplicate_subset: "set (deduplicate m xs) \<subseteq> set xs"
  by (induction xs arbitrary: m) auto

lemma deduplicate_unseen: "e \<in> set (deduplicate m xs) \<Longrightarrow> m (relationshipKey e) = None"
proof (induction xs arbitrary: m)
  case Nil
  then show ?case by simp
next
  case (Cons x xs)
  show ?case
  proof (cases "m (relationshipKey x) = None")
    case True
    with Cons.prems have "e = x \<or> e \<in> set (deduplicate (m(relationshipKey x \<mapsto> x)) xs)"
      by simp
    then show ?thesis
    proof
      assume "e = x"
      with True show ?thesis by simp
    next
      assume "e \<in> set (deduplicate (m(relationshipKey x \<mapsto> x)) xs)"
      from Cons.IH[OF this] show ?thesis by (simp split: if_splits)
    qed
  next
    case False
    with Cons show ?thesis by simp
  qed
qed

lemma deduplicate_distinct: "distinct (map relationshipKey (deduplicate m xs))"
proof (induction xs arbitrary: m)
  case Nil
  then show ?case by simp
next
  case (Cons x xs)
  show ?case
  proof (cases "m (relationshipKey x) = None")
    case True
    have "relationshipKey x \<notin> relationshipKey ` set (deduplicate (m(relationshipKey x \<mapsto> x)) xs)"
    proof
      assume "relationshipKey x \<in> relationshipKey ` set (deduplicate (m(relationshipKey x \<mapsto> x)) xs)"
      then obtain e where e: "e \<in> set (deduplicate (m(relationshipKey x \<mapsto> x)) xs)"
        and k: "relationshipKey e = relationshipKey x" by auto
      from deduplicate_unseen[OF e] k show False by simp
    qed
    with True Cons.IH show ?thesis by simp
  next
    case False
    with Cons.IH show ?thesis by auto
  qed
qed

lemma find_pred_cong: "(\<And>x. x \<in> set xs \<Longrightarrow> P x = Q x) \<Longrightarrow> find P xs = find Q xs"
  by (induction xs) auto

lemma distinct_key_triple:
  assumes "distinct (map relationshipKey xs)"
  shows "distinct (map relTriple xs)"
proof -
  have "map relationshipKey xs
      = map (\<lambda>t. fst t @ ''|'' @ fst (snd t) @ ''|'' @ typeString (snd (snd t))) (map relTriple xs)"
    by (simp add: relationshipKey_def relTriple_def)
  with assms have "distinct (map (\<lambda>t. fst t @ ''|'' @ fst (snd t) @ ''|'' @ typeString (snd (snd t)))
      (map relTriple xs))" by simp
  then show ?thesis unfolding distinct_map[of _ "map relTriple xs"] by (rule conjunct1)
qed

section \<open>Endpoints of the relationships pushed for a resource\<close>

lemma find_in_ids: "find P rs = Some r \<Longrightarrow> resId r \<in> resourceIds rs"
  by (auto simp: find_Some_iff resourceIds_def)

lemma find_in_ids': "Some r = find P rs \<Longrightarrow> resId r \<in> resourceIds rs"
  by (rule find_in_ids[OF sym])

lemma mockRuleConnections_endpoints:
  assumes "e \<in> set (mockRuleConnections src rs gid)"
  shows "endpointsOf src rs e"
proof (cases "find (\<lambda>r. resType r = Ecs \<and> application r = ''test-app2''
                        \<and> resName r = ''service-test-2'') rs")
  case None
  with assms show ?thesis by (simp add: mockRuleConnections_def split: if_split_asm)
next
  case (Some x)
  with assms find_in_ids[OF Some] show ?thesis
    by (simp add: mockRuleConnections_def endpointsOf_def split: if_split_asm)
qed

lemma groupRefConnections_endpoints:
  "e \<in> set (groupRefConnections rule src rs gid dir g) \<Longrightarrow> endpointsOf src rs e"
  by (auto simp: groupRefConnections_def endpointsOf_def resourceIds_def)

lemma processSecurityGroupRule_endpoints:
  "e \<in> set (processSecurityGroupRule rule src rs gid dir) \<Longrightarrow> endpointsOf src rs e"
  by (auto simp: processSecurityGroupRule_def
      dest: mockRuleConnections_endpoints groupRefConnections_endpoints)

lemma mockConnections_endpoints:
  assumes "e \<in> set (mockConnections r rs)"
  shows "endpointsOf r rs e"
proof (cases "find (\<lambda>x. resType x = AuroraInstance
      \<and> resName x = ''database-2-instance-1'') rs")
  case None
  with assms show ?thesis by (simp add: mockConnections_def split: if_split_asm)
next
  case (Some x)
  with assms find_in_ids[OF Some] show ?thesis
    by (simp add: mockConnections_def endpointsOf_def split: if_split_asm)
qed

lemma groupConnections_endpoints:
  "e \<in> set (groupConnections r rs sg) \<Longrightarrow> endpointsOf r rs e"
  by (auto simp: groupConnections_def dest: processSecurityGroupRule_endpoints)

lemma getSecurityGroupConnections_endpoints:
  "e \<in> set (getSecurityGroupConnections env r rs) \<Longrightarrow> endpointsOf r rs e"
  by (auto simp: getSecurityGroupConnections_def Let_def split: if_splits option.splits
      dest: mockConnections_endpoints groupConnections_endpoints)

lemma endpointsOf_update:
  "endpointsOf (r\<lparr>securityGroups := x\<rparr>) rs e = endpointsOf r rs e"
  by (simp add: endpointsOf_def)

lemma arnTargetRelationships_endpoints:
  "e \<in> set (fst (arnTargetRelationships meta r rs ts)) \<Longrightarrow> endpointsOf r rs e"
proof (induction ts)
  case Nil
  then show ?case by simp
next
  case (Cons t ts)
  then show ?case
    by (auto simp: Let_def endpointsOf_def split: option.splits if_splits
        dest: find_in_ids find_in_ids')
qed

lemma modifiedConnection_endpoints:
  assumes "endpointsOf i rs c" "i \<in> set rs"
  shows "sourceId (modifiedConnection r i c) = resId r \<or> targetId (modifiedConnection r i c) = resId r"
    and "sourceId (modifiedConnection r i c) \<in> insert (resId r) (resourceIds rs)"
    and "targetId (modifiedConnection r i c) \<in> insert (resId r) (resourceIds rs)"
  using assms by (auto simp: modifiedConnection_def endpointsOf_def resourceIds_def)

lemma endpointsOf_pushedBy: "endpointsOf r rs e \<Longrightarrow> pushedBy r rs e"
  by (auto simp: endpointsOf_def pushedBy_def)

lemma pushedBy_update:
  "pushedBy (r\<lparr>securityGroups := x\<rparr>) rs e = pushedBy r rs e"
  by (simp add: pushedBy_def)

lemma auroraRelationships_pushedBy:
  "e \<in> set (auroraRelationships env r rs) \<Longrightarrow> pushedBy r rs e"
proof -
  assume "e \<in> set (auroraRelationships env r rs)"
  then consider
    (inst) i where "i \<in> set rs" "e = instanceOf i r"
  | (own) "e \<in> set (getSecurityGroupConnections env
           (r\<lparr>securityGroups := Some (case securityGroups r of Some sgs \<Rightarrow> sgs
              | None \<Rightarrow> (case truthy (tagSecurityGroups r) of Some t \<Rightarrow> split CHR '','' t | None \<Rightarrow> []))\<rparr>) rs)"
  | (fallback) i c where "i \<in> set rs" "c \<in> set (getSecurityGroupConnections env i rs)"
      "e = modifiedConnection r i c"
    by (auto simp: auroraRelationships_def Let_def split: if_splits)
  then show ?thesis
  proof cases
    case inst
    then show ?thesis by (auto simp: instanceOf_def pushedBy_def resourceIds_def)
  next
    case own
    from getSecurityGroupConnections_endpoints[OF this] show ?thesis
      by (simp add: endpointsOf_update endpointsOf_pushedBy)
  next
    case fallback
    from getSecurityGroupConnections_endpoints[OF fallback(2)] fallback(1,3)
    show ?thesis using modifiedConnection_endpoints[of i rs c r]
      by (simp add: pushedBy_def)
  qed
qed

lemma processResource_pushedBy:
  "e \<in> set (fst (processResource env rs r)) \<Longrightarrow> pushedBy r rs e"
proof (cases "resType r")
  case Ecs
  then show "e \<in> set (fst (processResource env rs r)) \<Longrightarrow> pushedBy r rs e"
    by (auto simp: processResource_def ecsRelationships_def Let_def pushedBy_update
        split: if_splits dest!: getSecurityGroupConnections_endpoints endpointsOf_pushedBy)
next
  case Aurora
  then show "e \<in> set (fst (processResource env rs r)) \<Longrightarrow> pushedBy r rs e"
    by (auto simp: processResource_def dest: auroraRelationships_pushedBy)
next
  case AuroraInstance
  then show "e \<in> set (fst (processResource env rs r)) \<Longrightarrow> pushedBy r rs e"
    by (auto simp: processResource_def auroraInstanceRelationships_def instanceOf_def pushedBy_def
        split: option.splits dest: find_in_ids find_in_ids'
        dest!: getSecurityGroupConnections_endpoints[THEN endpointsOf_pushedBy])
next
  case Lambda
  then show "e \<in> set (fst (processResource env rs r)) \<Longrightarrow> pushedBy r rs e"
    by (auto simp: processResource_def lambdaTriggerRelationships_def
        lambdaDependencyRelationships_def pushedBy_def split: option.splits dest: find_in_ids find_in_ids')
next
  case Ec2
  then show "e \<in> set (fst (processResource env rs r)) \<Longrightarrow> pushedBy r rs e"
    by (auto simp: processResource_def ec2Relationships_def pushedBy_def endpointsOf_def
        dest!: getSecurityGroupConnections_endpoints)
next
  case StepFunctions
  then show "e \<in> set (fst (processResource env rs r)) \<Longrightarrow> pushedBy r rs e"
    by (auto simp: processResource_def getStepFunctionTargets_def)
next
  case ApiGateway
  then show "e \<in> set (fst (processResource env rs r)) \<Longrightarrow> pushedBy r rs e"
    by (auto simp: processResource_def apiGatewayRelationships_def pushedBy_def
        split: option.splits dest: find_in_ids find_in_ids')
next
  case EventBridge
  then show "e \<in> set (fst (processResource env rs r)) \<Longrightarrow> pushedBy r rs e"
    by (auto simp: processResource_def
        dest!: arnTargetRelationships_endpoints[THEN endpointsOf_pushedBy])
next
  case Alb
  then show "e \<in> set (fst (processResource env rs r)) \<Longrightarrow> pushedBy r rs e"
    by (auto simp: processResource_def loadBalancerRelationships_def pushedBy_def
        split: option.splits dest: find_in_ids find_in_ids')
next
  case Nlb
  then show "e \<in> set (fst (processResource env rs r)) \<Longrightarrow> pushedBy r rs e"
    by (auto simp: processResource_def loadBalancerRelationships_def pushedBy_def
        split: option.splits dest: find_in_ids find_in_ids')
qed

section \<open>The returned list against the pushed relationships\<close>

lemma discoveredRelationships_iff:
  "e \<in> set (discoveredRelationships env rs focus)
     \<longleftrightarrow> (\<exists>r \<in> set (resourcesOfInterest rs focus). e \<in> set (fst (processResource env rs r)))"
  by (auto simp: discoveredRelationships_def)

lemma discovered_endpoints:
  assumes "e \<in> set (discoveredRelationships env rs focus)"
    and "resourceIds (resourcesOfInterest rs focus) \<subseteq> resourceIds rs"
  shows "sourceId e \<in> resourceIds rs \<and> targetId e \<in> resourceIds rs"
proof -
  from assms(1) obtain r where r: "r \<in> set (resourcesOfInterest rs focus)"
    and e: "e \<in> set (fst (processResource env rs r))"
    by (auto simp: discoveredRelationships_iff)
  from r assms(2) have "resId r \<in> resourceIds rs" by (auto simp: resourceIds_def)
  with processResource_pushedBy[OF e] show ?thesis by (auto simp: pushedBy_def)
qed

lemma separatorFree_iff: "separatorFree rs \<longleftrightarrow> (\<forall>i \<in> resourceIds rs. CHR ''|'' \<notin> set i)"
  by (auto simp: separatorFree_def resourceIds_def list_all_iff)

lemma discovered_key_inj:
  assumes "separatorFree rs" "resourceIds (resourcesOfInterest rs focus) \<subseteq> resourceIds rs"
    and "a \<in> set (discoveredRelationships env rs focus)"
    and "b \<in> set (discoveredRelationships env rs focus)"
  shows "relationshipKey a = relationshipKey b \<longleftrightarrow> relTriple a = relTriple b"
proof
  assume k: "relationshipKey a = relationshipKey b"
  from discovered_endpoints[OF assms(3) assms(2)] discovered_endpoints[OF assms(4) assms(2)] assms(1)
  have "CHR ''|'' \<notin> set (sourceId a)" "CHR ''|'' \<notin> set (sourceId b)"
    "CHR ''|'' \<notin> set (targetId a)" "CHR ''|'' \<notin> set (targetId b)"
    by (auto simp: separatorFree_iff)
  from relationshipKey_inj[OF this k] show "relTriple a = relTriple b" .
next
  assume "relTriple a = relTriple b"
  then show "relationshipKey a = relationshipKey b" by (rule relTriple_key)
qed

lemma discover_distinct: "distinct (map relTriple (discoverResourceRelationships env rs focus))"
  by (simp add: discoverResourceRelationships_def deduplicate_distinct distinct_key_triple)

lemma discover_subset:
  "set (discoverResourceRelationships env rs focus) \<subseteq> set (discoveredRelationships env rs focus)"
  by (simp add: discoverResourceRelationships_def deduplicate_subset)

lemma discover_first_wins:
  assumes "separatorFree rs" "resourceIds (resourcesOfInterest rs focus) \<subseteq> resourceIds rs"
    and "e \<in> set (discoveredRelationships env rs focus)"
  shows "find (\<lambda>x. relTriple x = relTriple e) (discoverResourceRelationships env rs focus)
       = find (\<lambda>x. relTriple x = relTriple e) (discoveredRelationships env rs focus)"
proof -
  let ?xs = "discoveredRelationships env rs focus"
  let ?out = "discoverResourceRelationships env rs focus"
  have 1: "find (\<lambda>x. relTriple x = relTriple e) ?xs = find (\<lambda>x. relationshipKey x = relationshipKey e) ?xs"
    by (rule find_pred_cong) (simp add: discovered_key_inj[OF assms(1,2) _ assms(3)])
  have 2: "find (\<lambda>x. relTriple x = relTriple e) ?out = find (\<lambda>x. relationshipKey x = relationshipKey e) ?out"
  proof (rule find_pred_cong)
    fix x assume "x \<in> set ?out"
    with discover_subset have "x \<in> set ?xs" by blast
    from discovered_key_inj[OF assms(1,2) this assms(3)]
    show "(relTriple x = relTriple e) = (relationshipKey x = relationshipKey e)" by simp
  qed
  have 3: "find (\<lambda>x. relationshipKey x = relationshipKey e) ?out
         = find (\<lambda>x. relationshipKey x = relationshipKey e) ?xs"
    by (simp add: discoverResourceRelationships_def deduplicate_find)
  from 1 2 3 show ?thesis by simp
qed

lemma discover_triples:
  assumes "separatorFree rs" "resourceIds (resourcesOfInterest rs focus) \<subseteq> resourceIds rs"
  shows "relTriple ` set (discoverResourceRelationships env rs focus)
       = relTriple ` set (discoveredRelationships env rs focus)"
proof
  show "relTriple ` set (discoverResourceRelationships env rs focus)
       \<subseteq> relTriple ` set (discoveredRelationships env rs focus)"
    using discover_subset by blast
next
  show "relTriple ` set (discoveredRelationships env rs focus)
       \<subseteq> relTriple ` set (discoverResourceRelationships env rs focus)"
  proof
    fix t assume "t \<in> relTriple ` set (discoveredRelationships env rs focus)"
    then obtain e where e: "e \<in> set (discoveredRelationships env rs focus)" and t: "t = relTriple e"
      by auto
    from e have "find (\<lambda>x. relTriple x = relTriple e) (discoveredRelationships env rs focus) \<noteq> None"
      by (auto simp: find_None_iff)
    with discover_first_wins[OF assms e]
    obtain x where "find (\<lambda>x. relTriple x = relTriple e) (discoverResourceRelationships env rs focus) = Some x"
      by auto
    then have x: "x \<in> set (discoverResourceRelationships env rs focus)"
      and "relTriple x = relTriple e"
      by (auto simp: find_Some_iff)
    with t have "t = relTriple x" by simp
    then show "t \<in> relTriple ` set (discoverResourceRelationships env rs focus)"
      using x by (rule image_eqI)
  qed
qed

lemma discovered_focus_union:
  "set (discoveredRelationships env rs (Some focus))
     = (\<Union>r\<in>set focus. set (fst (processResource env rs r)))"
  by (auto simp: discoveredRelationships_def resourcesOfInterest_def)

lemma discovered_focus_subset:
  assumes "set focus \<subseteq> set rs"
  shows "set (discoveredRelationships env rs (Some focus)) \<subseteq> set (discoveredRelationships env rs None)"
  using assms by (auto simp: discoveredRelationships_def resourcesOfInterest_def)




lemma groupRefConnections_iff:
  "e \<in> set (groupRefConnections rule src rs gid dir g) \<longleftrightarrow>
     (\<exists>t \<in> set rs. usesSecurityGroup t g \<and> resId t \<noteq> resId src \<and>
        e = \<lparr>sourceId = (if dir = Inbound then resId t else resId src),
             targetId = (if dir = Inbound then resId src else resId t),
             relType = CONNECTS_TO,
             metadata = securityGroupsMetadata
               (if dir = Inbound then [g] else [gid])
               (if dir = Inbound then [gid] else [g])
               \<lparr>ruleProtocol = IpProtocol rule, fromPort = FromPort rule,
                toPort = ToPort rule, securityGroupId = g, ruleDirection = dir\<rparr>\<rparr>)"
  by (auto simp: groupRefConnections_def)


section \<open>The renderer's links\<close>

lemma mounted_component:
  "resourceDependencyGraph None resources relationships externalResources showExternalResources
     = renderGraph resources relationships externalResources showExternalResources"
  by (simp add: resourceDependencyGraph_def)

lemma message_is_kept:
  "truthy message = Some shown \<Longrightarrow>
     resourceDependencyGraph message resources relationships externalResources
       showExternalResources = Message shown"
  by (simp add: resourceDependencyGraph_def)

lemma relevant_no_resources:
  "relevantRelationships [] ext sh [] rels = ([], [])"
  by (induction rels) (simp_all add: Let_def)

lemma graphLinks_Cons:
  "graphLinks nodes (rel # rels)
     = (case find (\<lambda>n. nodeId n = sourceId rel) nodes of
          None \<Rightarrow> []
        | Some source \<Rightarrow>
            (case find (\<lambda>n. nodeId n = targetId rel) nodes of
               None \<Rightarrow> []
             | Some target \<Rightarrow>
                 [\<lparr>linkSource = source, linkTarget = target, linkType = relType rel,
                   linkRelationship = rel\<rparr>])) @ graphLinks nodes rels"
  by (simp add: graphLinks_def)

lemma node_found: "(i \<in> nodeId ` set nodes) = (find (\<lambda>n. nodeId n = i) nodes \<noteq> None)"
  by (auto simp: find_None_iff)

lemma graphLinks_relationships:
  "map linkRelationship (graphLinks nodes rels)
     = filter (\<lambda>rel. sourceId rel \<in> nodeId ` set nodes \<and> targetId rel \<in> nodeId ` set nodes) rels"
proof (induction rels)
  case Nil
  then show ?case by (simp add: graphLinks_def)
next
  case (Cons rel rels)
  show ?case
  proof (cases "find (\<lambda>n. nodeId n = sourceId rel) nodes")
    case None
    with Cons show ?thesis by (simp add: graphLinks_Cons node_found)
  next
    case (Some a)
    note src = this
    show ?thesis
    proof (cases "find (\<lambda>n. nodeId n = targetId rel) nodes")
      case None
      with src Cons show ?thesis by (simp add: graphLinks_Cons node_found)
    next
      case (Some b)
      with src Cons show ?thesis by (simp add: graphLinks_Cons node_found)
    qed
  qed
qed

lemma graphLinks_endpoints:
  assumes "l \<in> set (graphLinks nodes rels)"
  shows "linkSource l \<in> set nodes \<and> linkTarget l \<in> set nodes
       \<and> nodeId (linkSource l) = sourceId (linkRelationship l)
       \<and> nodeId (linkTarget l) = targetId (linkRelationship l)"
proof -
  from assms obtain rel a b where "find (\<lambda>n. nodeId n = sourceId rel) nodes = Some a"
    "find (\<lambda>n. nodeId n = targetId rel) nodes = Some b"
    "l = \<lparr>linkSource = a, linkTarget = b, linkType = relType rel, linkRelationship = rel\<rparr>"
    by (auto simp: graphLinks_def split: option.splits)
  then show ?thesis by (auto simp: find_Some_iff)
qed

section \<open>The model on the example inventories\<close>

lemmas example_defs = failingProvider_def plainResource_def clusterA_def instanceA_def
  clusterNamed_def clusterArn_def pipeP_def pipeQ_def pipeA_def pipeB_def collisionProvider_def
  collidingEdge_def firstEdge_def laterEdge_def healthFailingProvider_def
  computeR1_def computeR2_def mysqlRule_def groupProvider_def peerA_def peerB_def pairProvider_def
  outboundEdge_def inboundEdge_def instanceWithGroup_def nightlyRule_def reportFunction_def
  targetsProvider_def mockService_def mockDatabase_def ingressEdge_def linkedEdge_def
  danglingEdge_def frontBalancer_def ordersApi_def

lemmas discover_defs = discoverResourceRelationships_def discoveredRelationships_def
  resourcesOfInterest_def processResource_def relationshipKey_def
  auroraInstanceRelationships_def auroraRelationships_def ecsRelationships_def ec2Relationships_def
  loadBalancerRelationships_def lambdaTriggerRelationships_def lambdaDependencyRelationships_def
  apiGatewayRelationships_def instanceOf_def modifiedConnection_def
  getSecurityGroupConnections_def resolveSecurityGroupIds_def mockConnections_def
  groupConnections_def processSecurityGroupRule_def mockRuleConnections_def
  groupRefConnections_def usesSecurityGroup_def securityGroupsMetadata_def noMetadata_def
  mockSecurityGroupIds_def tagSecurityGroups_def detailSecurityGroups_def detailClusterName_def
  getLoadBalancerTargets_def getLambdaTriggers_def getLambdaDependencies_def
  getApiGatewayIntegrations_def getEventBridgeTargets_def getStepFunctionTargets_def
  statementTriggers_def resourceIntegrations_def orElse_def splitPop_def endsWith_def
  startsWith_def Let_def

lemma ev_example_focus:
  "discoverResourceRelationships failingProvider [clusterA, instanceA] (Some [instanceA])
     = [\<lparr>sourceId = ''i1'', targetId = ''c1'', relType = INSTANCE_OF, metadata = None\<rparr>]"
  by (simp add: discover_defs example_defs)

lemma ev_named_focus:
  "discoverResourceRelationships failingProvider [clusterNamed, instanceA] (Some [instanceA]) = []"
  by (simp add: discover_defs example_defs)

lemma ev_named_all:
  "discoverResourceRelationships failingProvider [clusterNamed, instanceA] None
     = [\<lparr>sourceId = ''i1'', targetId = ''x1'', relType = INSTANCE_OF, metadata = None\<rparr>]"
  by (simp add: discover_defs example_defs)




lemma ev_pair_pushed:
  "discoveredRelationships pairProvider [peerA, peerB] None = [outboundEdge, inboundEdge]"
  by (simp add: discover_defs example_defs)

lemma ev_pair_returned:
  "discoverResourceRelationships pairProvider [peerA, peerB] None = [outboundEdge]"
  by (simp add: discover_defs example_defs)

lemma ev_resolver:
  "getSecurityGroupConnections groupProvider computeR2 [computeR1, computeR2] = [ingressEdge]"
  by (simp add: discover_defs example_defs)

lemma ev_self_edge:
  "discoverResourceRelationships groupProvider [computeR1, computeR2] None
     = [\<lparr>sourceId = ''R2'', targetId = ''R2'', relType = CONNECTS_TO,
         metadata = Some noMetadata\<rparr>]"
  by (simp add: discover_defs example_defs)

lemma ev_self_edge_focus:
  "discoverResourceRelationships groupProvider [computeR1, computeR2] (Some [computeR2])
     = [\<lparr>sourceId = ''R2'', targetId = ''R2'', relType = CONNECTS_TO,
         metadata = Some noMetadata\<rparr>]"
  by (simp add: discover_defs example_defs)



lemma ev_dangling:
  "renderGraph [computeR1] [danglingEdge] [] True
     = Canvas (graphNodes [computeR1] [computeR1]) []"
  by (simp add: renderGraph_def graphNodes_def graphLinks_def addExternal_def Let_def example_defs)

lemma ev_linked_shown:
  "renderGraph [computeR1] [linkedEdge] [computeR2] True
     = Canvas (graphNodes [computeR1] [computeR1, computeR2])
         (graphLinks (graphNodes [computeR1] [computeR1, computeR2]) [linkedEdge])"
  by (simp add: renderGraph_def graphNodes_def graphLinks_def addExternal_def Let_def example_defs)

lemma ev_linked_hidden:
  "renderGraph [computeR1] [linkedEdge] [computeR2] False
     = Message ''No relationships found between resources''"
  by (simp add: renderGraph_def Let_def example_defs)

lemma ev_linked_links:
  "graphNodes [computeR1] [computeR1, computeR2] \<noteq> []
   \<and> map linkRelationship (graphLinks (graphNodes [computeR1] [computeR1, computeR2]) [linkedEdge])
       = [linkedEdge]"
  by (simp add: graphNodes_def graphLinks_def example_defs)

section \<open>The claims\<close>

text \<open>
  Claim C1 (scoping by a focus list), as amended. \<open>resourcesOfInterest\<close> is the focus list
  when one is given, and the loop processes its resources only; the full list is the
  search space of every extractor, and the returned list is not filtered afterwards.
  For a focus list taken from the full list, with ids free of the key's separator:
  every returned relationship has an endpoint in the focus list; the returned triples
  are exactly the triples pushed while processing the focus resources against the full
  list, so a relationship from a focus resource to a resource outside the focus list is
  returned; and every returned triple is a triple of the unfocused result.

  The claim as stated also asks for every relationship of the unfocused result that
  touches the focus list. The counterexample is such a relationship that only the pass
  of a resource outside the focus list pushes: the cluster \<open>x1\<close> is matched by its
  display name, which only the cluster's own pass tries.
\<close>

theorem focus_scoping:
  assumes "set focus \<subseteq> set allResources" and "separatorFree allResources"
  shows "(\<forall>e \<in> set (discoverResourceRelationships env allResources (Some focus)).
            sourceId e \<in> resourceIds focus \<or> targetId e \<in> resourceIds focus)
       \<and> relTriple ` set (discoverResourceRelationships env allResources (Some focus))
           = relTriple ` (\<Union>r\<in>set focus. set (fst (processResource env allResources r)))
       \<and> relTriple ` set (discoverResourceRelationships env allResources (Some focus))
           \<subseteq> relTriple ` set (discoverResourceRelationships env allResources None)"
proof -
  have ids: "resourceIds (resourcesOfInterest allResources (Some focus)) \<subseteq> resourceIds allResources"
    using assms(1) by (auto simp: resourceIds_def resourcesOfInterest_def)
  have ids': "resourceIds (resourcesOfInterest allResources None) \<subseteq> resourceIds allResources"
    by (simp add: resourcesOfInterest_def)
  have 1: "\<forall>e \<in> set (discoverResourceRelationships env allResources (Some focus)).
            sourceId e \<in> resourceIds focus \<or> targetId e \<in> resourceIds focus"
  proof
    fix e assume "e \<in> set (discoverResourceRelationships env allResources (Some focus))"
    with discover_subset have "e \<in> set (discoveredRelationships env allResources (Some focus))"
      by blast
    then obtain r where r: "r \<in> set focus" and "e \<in> set (fst (processResource env allResources r))"
      by (auto simp: discovered_focus_union)
    from processResource_pushedBy[OF this(2)] have "sourceId e = resId r \<or> targetId e = resId r"
      by (simp add: pushedBy_def)
    with r show "sourceId e \<in> resourceIds focus \<or> targetId e \<in> resourceIds focus"
      by (auto simp: resourceIds_def)
  qed
  have 2: "relTriple ` set (discoverResourceRelationships env allResources (Some focus))
           = relTriple ` (\<Union>r\<in>set focus. set (fst (processResource env allResources r)))"
    by (simp only: discover_triples[OF assms(2) ids] discovered_focus_union)
  have 3: "relTriple ` set (discoverResourceRelationships env allResources (Some focus))
           \<subseteq> relTriple ` set (discoverResourceRelationships env allResources None)"
    unfolding discover_triples[OF assms(2) ids] discover_triples[OF assms(2) ids']
    using discovered_focus_subset[OF assms(1)] by blast
  from 1 2 3 show ?thesis by blast
qed

theorem focus_scoping_witness:
  "set [instanceA] \<subseteq> set [clusterA, instanceA] \<and> separatorFree [clusterA, instanceA]
   \<and> relTriple ` set (discoverResourceRelationships failingProvider [clusterA, instanceA]
                         (Some [instanceA]))
       = relTriple ` (\<Union>r\<in>set [instanceA].
                        set (fst (processResource failingProvider [clusterA, instanceA] r)))
   \<and> relTriple ` set (discoverResourceRelationships failingProvider [clusterA, instanceA]
                         (Some [instanceA]))
       \<subseteq> relTriple ` set (discoverResourceRelationships failingProvider [clusterA, instanceA] None)
   \<and> discoverResourceRelationships failingProvider [clusterA, instanceA] (Some [instanceA])
       = [\<lparr>sourceId = ''i1'', targetId = ''c1'', relType = INSTANCE_OF, metadata = None\<rparr>]"
proof -
  have h1: "set [instanceA] \<subseteq> set [clusterA, instanceA]" by simp
  have h2: "separatorFree [clusterA, instanceA]"
    by (simp add: separatorFree_def example_defs)
  from focus_scoping[OF h1 h2, of failingProvider] h1 h2 ev_example_focus
  show ?thesis by blast
qed

theorem focus_scoping_counterexample:
  "(''i1'', ''x1'', INSTANCE_OF)
     \<in> relTriple ` set (discoverResourceRelationships failingProvider [clusterNamed, instanceA] None)
   \<and> ''i1'' \<in> resourceIds [instanceA]
   \<and> ''x1'' \<in> resourceIds [clusterNamed, instanceA]
   \<and> ''x1'' \<notin> resourceIds [instanceA]
   \<and> (''i1'', ''x1'', INSTANCE_OF)
     \<notin> relTriple ` set (discoverResourceRelationships failingProvider [clusterNamed, instanceA]
                          (Some [instanceA]))"
proof -
  have "(''i1'', ''x1'', INSTANCE_OF)
     \<in> relTriple ` set (discoverResourceRelationships failingProvider [clusterNamed, instanceA] None)"
    by (simp add: ev_named_all relTriple_def)
  moreover have "(''i1'', ''x1'', INSTANCE_OF)
     \<notin> relTriple ` set (discoverResourceRelationships failingProvider [clusterNamed, instanceA]
                          (Some [instanceA]))"
    by (simp add: ev_named_focus)
  moreover have "''i1'' \<in> resourceIds [instanceA]" "''x1'' \<in> resourceIds [clusterNamed, instanceA]"
    "''x1'' \<notin> resourceIds [instanceA]"
    by (simp_all add: resourceIds_def example_defs)
  ultimately show ?thesis by blast
qed

text \<open>
  Where no resource id holds the character \<open>|\<close>, the separator of the map key (and the
  resources of interest are among the full list), deduplication is by triple and the
  first relationship pushed with a triple is the one returned for it. That the returned
  list never holds two relationships with one triple needs no hypothesis. The instance
  below is the pair \<open>A\<close>, \<open>B\<close>: both passes push the relationship from \<open>A\<close> to \<open>B\<close>, with
  different metadata, and the one pushed first is returned.
\<close>

theorem deduplication_first_wins:
  "distinct (map relTriple (discoverResourceRelationships env allResources focusResources))
 \<and> (separatorFree allResources \<longrightarrow>
      resourceIds (resourcesOfInterest allResources focusResources) \<subseteq> resourceIds allResources \<longrightarrow>
      (\<forall>e \<in> set (discoveredRelationships env allResources focusResources).
         find (\<lambda>x. relTriple x = relTriple e)
           (discoverResourceRelationships env allResources focusResources)
         = find (\<lambda>x. relTriple x = relTriple e)
             (discoveredRelationships env allResources focusResources)))"
  using discover_distinct discover_first_wins by blast

theorem deduplication_first_wins_witness:
  "separatorFree [peerA, peerB]
   \<and> resourceIds (resourcesOfInterest [peerA, peerB] None) \<subseteq> resourceIds [peerA, peerB]
   \<and> discoveredRelationships pairProvider [peerA, peerB] None = [outboundEdge, inboundEdge]
   \<and> relTriple outboundEdge = relTriple inboundEdge
   \<and> outboundEdge \<noteq> inboundEdge
   \<and> distinct (map relTriple (discoverResourceRelationships pairProvider [peerA, peerB] None))
   \<and> find (\<lambda>x. relTriple x = relTriple inboundEdge)
         (discoverResourceRelationships pairProvider [peerA, peerB] None)
       = Some outboundEdge
   \<and> discoverResourceRelationships pairProvider [peerA, peerB] None = [outboundEdge]"
proof -
  have h1: "separatorFree [peerA, peerB]"
    by (simp add: separatorFree_def example_defs)
  have h2: "resourceIds (resourcesOfInterest [peerA, peerB] None) \<subseteq> resourceIds [peerA, peerB]"
    by (simp add: resourcesOfInterest_def)
  have t: "relTriple outboundEdge = relTriple inboundEdge" "outboundEdge \<noteq> inboundEdge"
    by (simp_all add: relTriple_def example_defs securityGroupsMetadata_def noMetadata_def)
  have m: "inboundEdge \<in> set (discoveredRelationships pairProvider [peerA, peerB] None)"
    by (simp add: ev_pair_pushed)
  from deduplication_first_wins[of pairProvider "[peerA, peerB]" None] h1 h2 m
  have d: "distinct (map relTriple (discoverResourceRelationships pairProvider [peerA, peerB] None))"
    and f: "find (\<lambda>x. relTriple x = relTriple inboundEdge)
              (discoverResourceRelationships pairProvider [peerA, peerB] None)
            = find (\<lambda>x. relTriple x = relTriple inboundEdge)
                (discoveredRelationships pairProvider [peerA, peerB] None)"
    by blast+
  from f t(1) have "find (\<lambda>x. relTriple x = relTriple inboundEdge)
         (discoverResourceRelationships pairProvider [peerA, peerB] None) = Some outboundEdge"
    by (simp add: ev_pair_pushed)
  with h1 h2 t d ev_pair_pushed ev_pair_returned show ?thesis by blast
qed


lemma security_group_reference_emitted:
  assumes "g \<in> set (UserIdGroupPairs rule)" and "t \<in> set allResources"
    and "usesSecurityGroup t g" and "resId t \<noteq> resId sourceResource"
  shows "\<lparr>sourceId = (if dir = Inbound then resId t else resId sourceResource),
          targetId = (if dir = Inbound then resId sourceResource else resId t),
          relType = CONNECTS_TO,
          metadata = securityGroupsMetadata
            (if dir = Inbound then [g] else [sourceGroupId])
            (if dir = Inbound then [sourceGroupId] else [g])
            \<lparr>ruleProtocol = IpProtocol rule, fromPort = FromPort rule,
             toPort = ToPort rule, securityGroupId = g, ruleDirection = dir\<rparr>\<rparr>
         \<in> set (processSecurityGroupRule rule sourceResource allResources sourceGroupId dir)"
proof -
  from assms(2-4) have "\<lparr>sourceId = (if dir = Inbound then resId t else resId sourceResource),
          targetId = (if dir = Inbound then resId sourceResource else resId t),
          relType = CONNECTS_TO,
          metadata = securityGroupsMetadata
            (if dir = Inbound then [g] else [sourceGroupId])
            (if dir = Inbound then [sourceGroupId] else [g])
            \<lparr>ruleProtocol = IpProtocol rule, fromPort = FromPort rule,
             toPort = ToPort rule, securityGroupId = g, ruleDirection = dir\<rparr>\<rparr>
         \<in> set (groupRefConnections rule sourceResource allResources sourceGroupId dir g)"
    unfolding groupRefConnections_iff by blast
  with assms(1) show ?thesis by (auto simp: processSecurityGroupRule_def)
qed



text \<open>
  Claim C4 (no self-edges) does not hold for the \<open>ec2\<close> case. The resolver skips
  self-referential connections, and the other cases push its connections as they are;
  the \<open>ec2\<close> case instead builds a relationship from the resource to
  \<open>connection.targetId\<close>. For an inbound rule the connection's target is the resource
  itself. On the two compute instances of the specification's example, where the group
  of \<open>R1\<close> is referenced by an ingress rule of the group of \<open>R2\<close>, the resolver returns
  the connection from \<open>R1\<close> to \<open>R2\<close> and discovery returns one relationship from \<open>R2\<close>
  to \<open>R2\<close>.
\<close>

theorem ec2_self_edge:
  "getSecurityGroupConnections groupProvider computeR2 [computeR1, computeR2] = [ingressEdge]
   \<and> sourceId ingressEdge = resId computeR1 \<and> targetId ingressEdge = resId computeR2
   \<and> discoverResourceRelationships groupProvider [computeR1, computeR2] None
       = [\<lparr>sourceId = resId computeR2, targetId = resId computeR2, relType = CONNECTS_TO,
           metadata = Some noMetadata\<rparr>]"
proof -
  have "sourceId ingressEdge = resId computeR1" "targetId ingressEdge = resId computeR2"
    "resId computeR2 = ''R2''"
    by (simp_all add: example_defs)
  with ev_resolver ev_self_edge show ?thesis by simp
qed

text \<open>
  Claim C5 (endpoints are resources of the list). When the ids of the resources of
  interest are ids of the full list (no focus, or a focus list taken from the full
  list), both endpoints of every returned relationship are ids of resources of the full
  list. An endpoint is a string taken from a resource that a lookup in the list found,
  or from the resource being processed: no relationship has an absent endpoint.
\<close>

theorem discovered_endpoints_in_resource_set:
  assumes "resourceIds (resourcesOfInterest allResources focusResources) \<subseteq> resourceIds allResources"
  shows "\<forall>e \<in> set (discoverResourceRelationships env allResources focusResources).
           sourceId e \<in> resourceIds allResources \<and> targetId e \<in> resourceIds allResources"
  using discover_subset discovered_endpoints[OF _ assms] by blast

theorem discovered_endpoints_in_resource_set_witness:
  "resourceIds (resourcesOfInterest [computeR1, computeR2] (Some [computeR2]))
     \<subseteq> resourceIds [computeR1, computeR2]
   \<and> discoverResourceRelationships groupProvider [computeR1, computeR2] (Some [computeR2]) \<noteq> []
   \<and> (\<exists>e \<in> set (discoverResourceRelationships groupProvider [computeR1, computeR2]
                    (Some [computeR2])).
         sourceId e \<in> resourceIds [computeR1, computeR2]
       \<and> targetId e \<in> resourceIds [computeR1, computeR2])"
proof -
  have h: "resourceIds (resourcesOfInterest [computeR1, computeR2] (Some [computeR2]))
     \<subseteq> resourceIds [computeR1, computeR2]"
    by (simp add: resourceIds_def resourcesOfInterest_def)
  have ne: "discoverResourceRelationships groupProvider [computeR1, computeR2] (Some [computeR2]) \<noteq> []"
    by (simp add: ev_self_edge_focus)
  have "\<lparr>sourceId = ''R2'', targetId = ''R2'', relType = CONNECTS_TO, metadata = Some noMetadata\<rparr>
          \<in> set (discoverResourceRelationships groupProvider [computeR1, computeR2]
                    (Some [computeR2]))"
    by (simp add: ev_self_edge_focus)
  with discovered_endpoints_in_resource_set[OF h, of groupProvider] h ne show ?thesis by blast
qed







text \<open>
  What a component that shows no message presents: the first message when the node list
  is empty, the second when it is not and no relationship is retained by the filter.
\<close>

theorem renderer_empty_states:
  "resourceDependencyGraph None [] relationships externalResources showExternalResources
     = Message ''No resources to display''
 \<and> (resources \<noteq> [] \<longrightarrow>
      resourceDependencyGraph None resources [] externalResources showExternalResources
        = Message ''No relationships found between resources'')
 \<and> (snd (relevantRelationships resources externalResources showExternalResources
            resources relationships) = [] \<longrightarrow>
      resourceDependencyGraph None resources relationships externalResources
        showExternalResources
        = Message ''No resources to display'')
 \<and> (snd (relevantRelationships resources externalResources showExternalResources
            resources relationships) \<noteq> [] \<longrightarrow>
      fst (relevantRelationships resources externalResources showExternalResources
             resources relationships) = [] \<longrightarrow>
      resourceDependencyGraph None resources relationships externalResources
        showExternalResources
        = Message ''No relationships found between resources'')"
  by (simp add: mounted_component renderGraph_def Let_def relevant_no_resources)

text \<open>
  Claim C8 (the two empty states) fails in two ways. The test for the second message is
  made on the relationships the filter retains, before the links are built: with the
  resource \<open>R1\<close>, one relationship from \<open>R1\<close> to an id that no resource has, and external
  resources shown, the relationship is retained, no link can be built, and a freshly
  mounted component draws a canvas with the node \<open>R1\<close> and no link instead of the
  message. And while a message is shown the effect returns at its guard: a component
  that showed \<open>No relationships found between resources\<close> for the resource \<open>R1\<close> keeps
  that message when its resources become empty, where the claim has
  \<open>No resources to display\<close>.
\<close>

theorem renderer_empty_state_missed:
  "resourceDependencyGraph None [computeR1] [danglingEdge] [] True
     = Canvas (graphNodes [computeR1] [computeR1]) []
   \<and> graphNodes [computeR1] [computeR1] \<noteq> []
   \<and> resourceDependencyGraph None [computeR1] [] [] True
       = Message ''No relationships found between resources''
   \<and> resourceDependencyGraph
         (messageAfter (resourceDependencyGraph None [computeR1] [] [] True)) [] [] [] True
       = Message ''No relationships found between resources''"
proof -
  have 1: "resourceDependencyGraph None [computeR1] [danglingEdge] [] True
     = Canvas (graphNodes [computeR1] [computeR1]) []"
    by (simp add: mounted_component ev_dangling)
  have 2: "graphNodes [computeR1] [computeR1] \<noteq> []"
    by (simp add: graphNodes_def)
  have 3: "resourceDependencyGraph None [computeR1] [] [] True
       = Message ''No relationships found between resources''"
    by (simp add: mounted_component renderGraph_def Let_def)
  have 4: "resourceDependencyGraph
         (messageAfter (resourceDependencyGraph None [computeR1] [] [] True)) [] [] [] True
       = Message ''No relationships found between resources''"
    by (simp only: 3 messageAfter.simps) (simp add: resourceDependencyGraph_def)
  from 1 2 3 4 show ?thesis by blast
qed

text \<open>
  What a component that shows no message draws: the links are the retained
  relationships whose two endpoints are nodes, and it presents a message only when the
  node list or the list of retained relationships is empty.
\<close>

theorem renderer_drops_unresolvable_edges:
  "(case resourceDependencyGraph None resources relationships externalResources
           showExternalResources of
      Message m \<Rightarrow>
        graphNodes resources
          (snd (relevantRelationships resources externalResources showExternalResources
                  resources relationships)) = []
        \<or> graphLinks
             (graphNodes resources
                (snd (relevantRelationships resources externalResources showExternalResources
                        resources relationships)))
             (fst (relevantRelationships resources externalResources showExternalResources
                     resources relationships)) = []
    | Canvas nodes links \<Rightarrow>
        nodes \<noteq> []
        \<and> map linkRelationship links
            = filter (\<lambda>rel. sourceId rel \<in> nodeId ` set nodes \<and> targetId rel \<in> nodeId ` set nodes)
                (fst (relevantRelationships resources externalResources showExternalResources
                        resources relationships))
        \<and> (\<forall>l \<in> set links.
              linkSource l \<in> set nodes \<and> linkTarget l \<in> set nodes
              \<and> nodeId (linkSource l) = sourceId (linkRelationship l)
              \<and> nodeId (linkTarget l) = targetId (linkRelationship l)))"
proof -
  let ?view = "relevantRelationships resources externalResources showExternalResources
                 resources relationships"
  show ?thesis
  proof (cases "snd ?view = []")
    case True
    then show ?thesis by (simp add: mounted_component renderGraph_def Let_def graphNodes_def)
  next
    case False
    note nodes = this
    show ?thesis
    proof (cases "fst ?view = []")
      case True
      with nodes show ?thesis
        by (simp add: mounted_component renderGraph_def Let_def graphLinks_def)
    next
      case False
      with nodes have r: "resourceDependencyGraph None resources relationships externalResources
            showExternalResources
          = Canvas (graphNodes resources (snd ?view))
              (graphLinks (graphNodes resources (snd ?view)) (fst ?view))"
        by (simp add: mounted_component renderGraph_def Let_def)
      from nodes have "graphNodes resources (snd ?view) \<noteq> []" by (simp add: graphNodes_def)
      with r graphLinks_endpoints[of _ "graphNodes resources (snd ?view)" "fst ?view"]
      show ?thesis by (simp add: graphLinks_relationships)
    qed
  qed
qed

text \<open>
  Claim C9 (a message only when the node set or the edge set is empty) fails once a
  message is shown. The component is mounted with the resource \<open>R1\<close>, a relationship
  from \<open>R1\<close> to the external resource \<open>R2\<close>, and external resources shown: it draws
  two nodes and one link. External resources are switched off: no relationship is
  retained and the message \<open>No relationships found between resources\<close> is shown.
  They are switched on again: the container is not rendered while a message is shown,
  the effect returns at its guard, and the message stays although the inputs are those
  of the first run, with two nodes and one link.
\<close>

theorem renderer_message_is_stale:
  "resourceDependencyGraph None [computeR1] [linkedEdge] [computeR2] True
     = Canvas (graphNodes [computeR1] [computeR1, computeR2])
         (graphLinks (graphNodes [computeR1] [computeR1, computeR2]) [linkedEdge])
   \<and> graphNodes [computeR1] [computeR1, computeR2] \<noteq> []
   \<and> map linkRelationship (graphLinks (graphNodes [computeR1] [computeR1, computeR2]) [linkedEdge])
       = [linkedEdge]
   \<and> resourceDependencyGraph
         (messageAfter (resourceDependencyGraph None [computeR1] [linkedEdge] [computeR2] True))
         [computeR1] [linkedEdge] [computeR2] False
       = Message ''No relationships found between resources''
   \<and> resourceDependencyGraph
         (messageAfter
            (resourceDependencyGraph
               (messageAfter
                  (resourceDependencyGraph None [computeR1] [linkedEdge] [computeR2] True))
               [computeR1] [linkedEdge] [computeR2] False))
         [computeR1] [linkedEdge] [computeR2] True
       = Message ''No relationships found between resources''"
proof -
  have 1: "resourceDependencyGraph None [computeR1] [linkedEdge] [computeR2] True
     = Canvas (graphNodes [computeR1] [computeR1, computeR2])
         (graphLinks (graphNodes [computeR1] [computeR1, computeR2]) [linkedEdge])"
    by (simp add: mounted_component ev_linked_shown)
  have 2: "resourceDependencyGraph
         (messageAfter (resourceDependencyGraph None [computeR1] [linkedEdge] [computeR2] True))
         [computeR1] [linkedEdge] [computeR2] False
       = Message ''No relationships found between resources''"
    by (simp only: 1 messageAfter.simps) (simp add: mounted_component ev_linked_hidden)
  have 3: "resourceDependencyGraph
         (messageAfter
            (resourceDependencyGraph
               (messageAfter
                  (resourceDependencyGraph None [computeR1] [linkedEdge] [computeR2] True))
               [computeR1] [linkedEdge] [computeR2] False))
         [computeR1] [linkedEdge] [computeR2] True
       = Message ''No relationships found between resources''"
    by (simp only: 2 messageAfter.simps) (simp add: resourceDependencyGraph_def)
  from 1 2 3 ev_linked_links show ?thesis by blast
qed

text \<open>
  Claim C10 (the hardcoded fixture). When the group ids resolved for a resource hold
  \<open>sg-0123456789abcdef0\<close>, the resolver's result does not depend on the provider (no
  lookup is made): for the resource named \<open>service-test-2\<close> of application \<open>test-app2\<close>
  it is the one \<open>connects_to\<close> relationship (tcp, port 3306, outbound) to the first
  \<open>aurora-instance\<close> named \<open>database-2-instance-1\<close>, or nothing when there is none; for
  every other resource it is nothing. And processing any rule of the resource named
  \<open>database-2-instance-1\<close> of application \<open>test-app2\<close> emits the mirrored relationship
  (tcp, port 3306, inbound) from the ECS service \<open>service-test-2\<close> of that application,
  when the list has one.
\<close>

theorem mock_security_group_fixture:
  "(''sg-0123456789abcdef0'' \<in> set (resolveSecurityGroupIds r) \<longrightarrow>
      getSecurityGroupConnections env r allResources
        = (if resName r = ''service-test-2'' \<and> application r = ''test-app2'' then
             (case find (\<lambda>x. resType x = AuroraInstance \<and> resName x = ''database-2-instance-1'')
                     allResources of
                None \<Rightarrow> []
              | Some dbInstance \<Rightarrow>
                  [\<lparr>sourceId = resId r, targetId = resId dbInstance, relType = CONNECTS_TO,
                    metadata = securityGroupsMetadata [''sg-0123456789abcdef0'']
                      (case securityGroups dbInstance of None \<Rightarrow> [] | Some sgs \<Rightarrow> sgs)
                      \<lparr>ruleProtocol = ''tcp'', fromPort = Some 3306, toPort = Some 3306,
                       securityGroupId = ''sg-0123456789abcdef0'',
                       ruleDirection = Outbound\<rparr>\<rparr>])
           else [])
      \<and> getSecurityGroupConnections env r allResources
          = getSecurityGroupConnections otherEnv r allResources)
 \<and> (resName r = ''database-2-instance-1'' \<longrightarrow> application r = ''test-app2'' \<longrightarrow>
      (\<forall>ecsService.
         find (\<lambda>x. resType x = Ecs \<and> application x = ''test-app2''
                  \<and> resName x = ''service-test-2'') allResources = Some ecsService \<longrightarrow>
         \<lparr>sourceId = resId ecsService, targetId = resId r, relType = CONNECTS_TO,
          metadata = securityGroupsMetadata [''sg-0123456789abcdef0''] [sourceGroupId]
            \<lparr>ruleProtocol = ''tcp'', fromPort = Some 3306, toPort = Some 3306,
             securityGroupId = sourceGroupId, ruleDirection = Inbound\<rparr>\<rparr>
           \<in> set (processSecurityGroupRule rule r allResources sourceGroupId dir)))"
proof (intro conjI impI allI)
  assume "''sg-0123456789abcdef0'' \<in> set (resolveSecurityGroupIds r)"
  then have m: "list_ex (\<lambda>i. i \<in> set mockSecurityGroupIds) (resolveSecurityGroupIds r)"
    and n: "resolveSecurityGroupIds r \<noteq> []"
    by (auto simp: list_ex_iff mockSecurityGroupIds_def)
  then have c: "getSecurityGroupConnections env r allResources = mockConnections r allResources"
    "getSecurityGroupConnections otherEnv r allResources = mockConnections r allResources"
    by (simp_all add: getSecurityGroupConnections_def Let_def)
  from c show "getSecurityGroupConnections env r allResources
          = getSecurityGroupConnections otherEnv r allResources" by simp
  from c(1) show "getSecurityGroupConnections env r allResources
        = (if resName r = ''service-test-2'' \<and> application r = ''test-app2'' then
             (case find (\<lambda>x. resType x = AuroraInstance \<and> resName x = ''database-2-instance-1'')
                     allResources of
                None \<Rightarrow> []
              | Some dbInstance \<Rightarrow>
                  [\<lparr>sourceId = resId r, targetId = resId dbInstance, relType = CONNECTS_TO,
                    metadata = securityGroupsMetadata [''sg-0123456789abcdef0'']
                      (case securityGroups dbInstance of None \<Rightarrow> [] | Some sgs \<Rightarrow> sgs)
                      \<lparr>ruleProtocol = ''tcp'', fromPort = Some 3306, toPort = Some 3306,
                       securityGroupId = ''sg-0123456789abcdef0'',
                       ruleDirection = Outbound\<rparr>\<rparr>])
           else [])"
    by (simp add: mockConnections_def)
next
  fix ecsService
  assume "resName r = ''database-2-instance-1''" "application r = ''test-app2''"
    "find (\<lambda>x. resType x = Ecs \<and> application x = ''test-app2''
                  \<and> resName x = ''service-test-2'') allResources = Some ecsService"
  then show "\<lparr>sourceId = resId ecsService, targetId = resId r, relType = CONNECTS_TO,
          metadata = securityGroupsMetadata [''sg-0123456789abcdef0''] [sourceGroupId]
            \<lparr>ruleProtocol = ''tcp'', fromPort = Some 3306, toPort = Some 3306,
             securityGroupId = sourceGroupId, ruleDirection = Inbound\<rparr>\<rparr>
           \<in> set (processSecurityGroupRule rule r allResources sourceGroupId dir)"
    by (simp add: processSecurityGroupRule_def mockRuleConnections_def)
qed

theorem mock_security_group_fixture_witness:
  "''sg-0123456789abcdef0'' \<in> set (resolveSecurityGroupIds mockService)
   \<and> getSecurityGroupConnections groupProvider mockService [mockService, mockDatabase]
       = [\<lparr>sourceId = ''svc'', targetId = ''db'', relType = CONNECTS_TO,
           metadata = securityGroupsMetadata [''sg-0123456789abcdef0''] [''sg-db'']
             \<lparr>ruleProtocol = ''tcp'', fromPort = Some 3306, toPort = Some 3306,
              securityGroupId = ''sg-0123456789abcdef0'', ruleDirection = Outbound\<rparr>\<rparr>]
   \<and> getSecurityGroupConnections groupProvider mockService [mockService, mockDatabase]
       = getSecurityGroupConnections failingProvider mockService [mockService, mockDatabase]
   \<and> resName mockDatabase = ''database-2-instance-1'' \<and> application mockDatabase = ''test-app2''
   \<and> find (\<lambda>x. resType x = Ecs \<and> application x = ''test-app2''
                \<and> resName x = ''service-test-2'') [mockService, mockDatabase] = Some mockService
   \<and> \<lparr>sourceId = ''svc'', targetId = ''db'', relType = CONNECTS_TO,
       metadata = securityGroupsMetadata [''sg-0123456789abcdef0''] [''sg-db'']
         \<lparr>ruleProtocol = ''tcp'', fromPort = Some 3306, toPort = Some 3306,
          securityGroupId = ''sg-db'', ruleDirection = Inbound\<rparr>\<rparr>
       \<in> set (processSecurityGroupRule mysqlRule mockDatabase [mockService, mockDatabase]
                ''sg-db'' Outbound)"
proof -
  have h1: "''sg-0123456789abcdef0'' \<in> set (resolveSecurityGroupIds mockService)"
    by (simp add: example_defs resolveSecurityGroupIds_def tagSecurityGroups_def
        detailSecurityGroups_def)
  have h2: "resName mockDatabase = ''database-2-instance-1''"
    "application mockDatabase = ''test-app2''"
    by (simp_all add: example_defs)
  have h3: "find (\<lambda>x. resType x = Ecs \<and> application x = ''test-app2''
                \<and> resName x = ''service-test-2'') [mockService, mockDatabase] = Some mockService"
    by (simp add: example_defs)
  have ids: "resId mockService = ''svc''" "resId mockDatabase = ''db''"
    by (simp_all add: example_defs)
  from mock_security_group_fixture[where r = mockService and env = groupProvider
      and otherEnv = failingProvider and allResources = "[mockService, mockDatabase]"
      and sourceGroupId = "''sg-db''" and rule = mysqlRule and dir = Outbound] h1
  have e: "getSecurityGroupConnections groupProvider mockService [mockService, mockDatabase]
        = (if resName mockService = ''service-test-2'' \<and> application mockService = ''test-app2'' then
             (case find (\<lambda>x. resType x = AuroraInstance \<and> resName x = ''database-2-instance-1'')
                     [mockService, mockDatabase] of
                None \<Rightarrow> []
              | Some dbInstance \<Rightarrow>
                  [\<lparr>sourceId = resId mockService, targetId = resId dbInstance, relType = CONNECTS_TO,
                    metadata = securityGroupsMetadata [''sg-0123456789abcdef0'']
                      (case securityGroups dbInstance of None \<Rightarrow> [] | Some sgs \<Rightarrow> sgs)
                      \<lparr>ruleProtocol = ''tcp'', fromPort = Some 3306, toPort = Some 3306,
                       securityGroupId = ''sg-0123456789abcdef0'',
                       ruleDirection = Outbound\<rparr>\<rparr>])
           else [])"
    and i: "getSecurityGroupConnections groupProvider mockService [mockService, mockDatabase]
       = getSecurityGroupConnections failingProvider mockService [mockService, mockDatabase]"
    by blast+
  from e have 1: "getSecurityGroupConnections groupProvider mockService [mockService, mockDatabase]
       = [\<lparr>sourceId = ''svc'', targetId = ''db'', relType = CONNECTS_TO,
           metadata = securityGroupsMetadata [''sg-0123456789abcdef0''] [''sg-db'']
             \<lparr>ruleProtocol = ''tcp'', fromPort = Some 3306, toPort = Some 3306,
              securityGroupId = ''sg-0123456789abcdef0'', ruleDirection = Outbound\<rparr>\<rparr>]"
    by (simp add: example_defs)
  from mock_security_group_fixture[where r = mockDatabase and env = groupProvider
      and otherEnv = failingProvider and allResources = "[mockService, mockDatabase]"
      and sourceGroupId = "''sg-db''" and rule = mysqlRule and dir = Outbound] h2 h3
  have "\<lparr>sourceId = resId mockService, targetId = resId mockDatabase, relType = CONNECTS_TO,
       metadata = securityGroupsMetadata [''sg-0123456789abcdef0''] [''sg-db'']
         \<lparr>ruleProtocol = ''tcp'', fromPort = Some 3306, toPort = Some 3306,
          securityGroupId = ''sg-db'', ruleDirection = Inbound\<rparr>\<rparr>
       \<in> set (processSecurityGroupRule mysqlRule mockDatabase [mockService, mockDatabase]
                ''sg-db'' Outbound)"
    by blast
  with ids h1 h2 h3 1 i show ?thesis by simp
qed

end
